theory Spec2Isabelle
  imports Complex_Main "HOL-Library.Word" "HOL-Library.Sublist"
begin

section \<open>The token tracker of \<^verbatim>\<open>bot.py\<close>\<close>

text \<open>
  \<^verbatim>\<open>TokenTracker\<close> answers queries about the holders of one ERC20 token. It reads the
  chain through a contract object (\<^verbatim>\<open>balanceOf\<close>, \<^verbatim>\<open>decimals\<close>, \<^verbatim>\<open>symbol\<close>,
  \<^verbatim>\<open>name\<close>, \<^verbatim>\<open>totalSupply\<close>), the transfer log through one HTTP request, and keeps
  three caches guarded by one time stamp.

  Everything outside the process is a \<open>world\<close>: the clock, the replies of the two
  providers, and the library functions the code calls (\<^verbatim>\<open>to_checksum_address\<close>,
  \<^verbatim>\<open>str.lower\<close>, \<^verbatim>\<open>int\<close>, \<^verbatim>\<open>datetime.fromtimestamp(...).strftime\<close>, the iteration
  order of a \<^verbatim>\<open>set\<close>). The clock and the providers may answer differently each time
  they are asked, so their replies are indexed by the number of interactions the
  process has had with the outside so far. That number is the length of \<open>events\<close>, a
  log of the interactions (newest first) kept beside the fields of the object.

  Amounts are \<^verbatim>\<open>uint256\<close> and the precision is \<^verbatim>\<open>uint8\<close>, as the ABI in the source
  declares them. A Python \<^verbatim>\<open>float\<close> is the real number it denotes. The division of two
  integers gives the double nearest to the exact quotient: the rounding is the world's
  \<open>round_double\<close>, and the division raises \<^verbatim>\<open>OverflowError\<close> when the quotient is
  beyond the range of a double.
\<close>

subsection \<open>Data\<close>

text \<open>
  A record of the transfer log as the provider delivers it: a JSON object with the
  string fields \<^verbatim>\<open>from\<close>, \<^verbatim>\<open>to\<close>, \<^verbatim>\<open>value\<close> and \<^verbatim>\<open>timeStamp\<close>. The code reads
  \<^verbatim>\<open>value\<close> and \<^verbatim>\<open>timeStamp\<close> through \<^verbatim>\<open>int(...)\<close>, which may raise.
\<close>

record tx =
  tx_from :: string
  tx_to :: string
  tx_value :: string
  tx_timeStamp :: string

record token_info =
  info_symbol :: string
  info_name :: string
  info_totalSupply :: real

text \<open>
  The reply to the HTTP request: \<^verbatim>\<open>requests.get\<close> or \<^verbatim>\<open>response.json()\<close> raises, or
  the body is a JSON object whose keys \<^verbatim>\<open>status\<close> and \<^verbatim>\<open>result\<close> may each be missing.
\<close>

datatype tokentx_reply =
    RequestRaises
  | JsonData "string option" "tx list option"

datatype exn =
    InvalidAddress string
  | ContractCallError
  | OverflowError
  | ZeroDivisionError

datatype event =
    ReadClock
  | CallDecimals
  | CallBalanceOf string
  | CallSymbol
  | CallName
  | CallTotalSupply
  | CallTokenTx
  | Print string

record world =
  clock :: "nat \<Rightarrow> real"
  rpc_decimals :: "nat \<Rightarrow> 8 word option"
  rpc_balanceOf :: "nat \<Rightarrow> string \<Rightarrow> 256 word option"
  rpc_symbol :: "nat \<Rightarrow> string option"
  rpc_name :: "nat \<Rightarrow> string option"
  rpc_totalSupply :: "nat \<Rightarrow> 256 word option"
  http_tokentx :: "nat \<Rightarrow> tokentx_reply"
  to_checksum_address :: "string \<Rightarrow> string option"
  str_lower :: "string \<Rightarrow> string"
  py_int :: "string \<Rightarrow> int option"
  strftime :: "int \<Rightarrow> string option"
  set_iter :: "string list \<Rightarrow> string list"
  round_double :: "real \<Rightarrow> real"

record tracker =
  decimals :: nat
  balance_cache :: "string \<rightharpoonup> real"
  tx_cache :: "tx list"
  token_info_cache :: "token_info option"
  cache_lifetime :: real
  last_cache_update :: real
  events :: "event list"

definition ZERO_ADDRESS :: string where
  "ZERO_ADDRESS = ''0x0000000000000000000000000000000000000000''"

subsection \<open>Interactions with the outside\<close>

definition tick :: "tracker \<Rightarrow> nat" where
  "tick s = length (events s)"

definition emit :: "event \<Rightarrow> tracker \<Rightarrow> tracker" where
  "emit e s = s\<lparr>events := e # events s\<rparr>"

definition time_time :: "world \<Rightarrow> tracker \<Rightarrow> real \<times> tracker" where
  "time_time w s = (clock w (tick s), emit ReadClock s)"

definition call_balanceOf :: "world \<Rightarrow> string \<Rightarrow> tracker \<Rightarrow> 256 word option \<times> tracker" where
  "call_balanceOf w a s = (rpc_balanceOf w (tick s) a, emit (CallBalanceOf a) s)"

definition call_symbol :: "world \<Rightarrow> tracker \<Rightarrow> string option \<times> tracker" where
  "call_symbol w s = (rpc_symbol w (tick s), emit CallSymbol s)"

definition call_name :: "world \<Rightarrow> tracker \<Rightarrow> string option \<times> tracker" where
  "call_name w s = (rpc_name w (tick s), emit CallName s)"

definition call_totalSupply :: "world \<Rightarrow> tracker \<Rightarrow> 256 word option \<times> tracker" where
  "call_totalSupply w s = (rpc_totalSupply w (tick s), emit CallTotalSupply s)"

definition requests_get :: "world \<Rightarrow> tracker \<Rightarrow> tokentx_reply \<times> tracker" where
  "requests_get w s = (http_tokentx w (tick s), emit CallTokenTx s)"

subsection \<open>Construction and the cache clock\<close>

text \<open>
  \<^verbatim>\<open>__init__\<close> calls \<^verbatim>\<open>decimals()\<close> once; a failure of that call is not caught.
  \<^verbatim>\<open>_tx_cache\<close> starts as an empty dict and later holds a list; both empty values are
  falsy and neither is ever returned from the cache, so one empty list stands for both.
\<close>

definition init :: "world \<Rightarrow> exn + tracker" where
  "init w =
     (case rpc_decimals w 0 of
        None \<Rightarrow> Inl ContractCallError
      | Some d \<Rightarrow>
          Inr \<lparr>decimals = unat d, balance_cache = Map.empty, tx_cache = [],
               token_info_cache = None, cache_lifetime = 300, last_cache_update = 0,
               events = [CallDecimals]\<rparr>)"

definition is_cache_valid :: "world \<Rightarrow> tracker \<Rightarrow> bool \<times> tracker" where
  "is_cache_valid w s =
     (case time_time w s of (now, s1) \<Rightarrow>
        (now - last_cache_update s1 < cache_lifetime s1, s1))"

definition update_cache_timestamp :: "world \<Rightarrow> tracker \<Rightarrow> tracker" where
  "update_cache_timestamp w s =
     (case time_time w s of (now, s1) \<Rightarrow> s1\<lparr>last_cache_update := now\<rparr>)"

text \<open>
  \<^verbatim>\<open>balance / (10 ** self.decimals)\<close> divides two Python integers. A quotient whose
  magnitude reaches \<open>2 ^ 1024 - 2 ^ 970\<close>, half a unit in the last place above the
  largest double, has no finite double and the division raises; any other quotient is
  rounded to a double.
\<close>

definition double_overflows :: "real \<Rightarrow> bool" where
  "double_overflows q \<longleftrightarrow> 2 ^ 1024 - 2 ^ 970 \<le> \<bar>q\<bar>"

definition format_balance :: "world \<Rightarrow> tracker \<Rightarrow> int \<Rightarrow> exn + real" where
  "format_balance w s balance =
     (let q = real_of_int balance / 10 ^ decimals s
      in if double_overflows q then Inl OverflowError else Inr (round_double w q))"

subsection \<open>Balances\<close>

text \<open>
  \<^verbatim>\<open>to_checksum_address\<close> is outside the \<^verbatim>\<open>try\<close>: a string it rejects makes
  \<^verbatim>\<open>get_balance\<close> raise. A failing \<^verbatim>\<open>balanceOf\<close> call, and a division that raises,
  are caught, printed, and answered with 0; neither the cache nor the time stamp
  changes then.
\<close>

definition get_balance :: "world \<Rightarrow> string \<Rightarrow> tracker \<Rightarrow> (exn + real) \<times> tracker" where
  "get_balance w address s =
     (case to_checksum_address w address of
        None \<Rightarrow> (Inl (InvalidAddress address), s)
      | Some a \<Rightarrow>
          (case is_cache_valid w s of (valid, s1) \<Rightarrow>
             if valid \<and> balance_cache s1 a \<noteq> None
             then (Inr (the (balance_cache s1 a)), s1)
             else
               (case call_balanceOf w a s1 of
                  (None, s2) \<Rightarrow> (Inr 0, emit (Print ''Error getting balance'') s2)
                | (Some balance, s2) \<Rightarrow>
                    (case format_balance w s2 (uint balance) of
                       Inl e \<Rightarrow> (Inr 0, emit (Print ''Error getting balance'') s2)
                     | Inr formatted_balance \<Rightarrow>
                         (let s3 = s2\<lparr>balance_cache :=
                                        (balance_cache s2)(a \<mapsto> formatted_balance)\<rparr>
                          in (Inr formatted_balance, update_cache_timestamp w s3))))))"

subsection \<open>The transfer log\<close>

text \<open>
  The cached log is returned only when it is non-empty (\<^verbatim>\<open>and self._tx_cache\<close>). A
  missing \<^verbatim>\<open>status\<close> key raises \<^verbatim>\<open>KeyError\<close> inside the \<^verbatim>\<open>try\<close>; a status other
  than \<^verbatim>\<open>'1'\<close> or a missing \<^verbatim>\<open>result\<close> key falls through to \<^verbatim>\<open>return []\<close>.
\<close>

definition get_token_transactions :: "world \<Rightarrow> tracker \<Rightarrow> tx list \<times> tracker" where
  "get_token_transactions w s =
     (case is_cache_valid w s of (valid, s1) \<Rightarrow>
        if valid \<and> tx_cache s1 \<noteq> []
        then (tx_cache s1, s1)
        else
          (case requests_get w s1 of
             (RequestRaises, s2) \<Rightarrow> ([], emit (Print ''Error getting transactions'') s2)
           | (JsonData None result, s2) \<Rightarrow> ([], emit (Print ''Error getting transactions'') s2)
           | (JsonData (Some status) result, s2) \<Rightarrow>
               if status = ''1'' \<and> result \<noteq> None
               then (let s3 = update_cache_timestamp w (s2\<lparr>tx_cache := the result\<rparr>)
                     in (tx_cache s3, s3))
               else ([], s2)))"

subsection \<open>Ranking holders\<close>

text \<open>
  \<^verbatim>\<open>xs[:n]\<close>: a negative \<open>n\<close> counts from the end.
\<close>

definition slice_to :: "'a list \<Rightarrow> int \<Rightarrow> 'a list" where
  "slice_to xs n =
     (if 0 \<le> n then take (nat n) xs else take (length xs - nat (- n)) xs)"

text \<open>
  \<^verbatim>\<open>sorted(xs, key=..., reverse=True)\<close> is stable and keeps the original order of equal
  keys also when reversed; so is \<^const>\<open>sort_key\<close> on the negated key.
\<close>

definition sorted_desc :: "('a \<Rightarrow> real) \<Rightarrow> 'a list \<Rightarrow> 'a list" where
  "sorted_desc key xs = sort_key (\<lambda>x. - key x) xs"

definition collect_addresses :: "tx list \<Rightarrow> string list" where
  "collect_addresses transactions = concat (map (\<lambda>t. [tx_from t, tx_to t]) transactions)"

fun holders_loop ::
  "world \<Rightarrow> string list \<Rightarrow> (string \<times> real) list \<Rightarrow> tracker \<Rightarrow> (string \<times> real) list \<times> tracker" where
  "holders_loop w [] holders s = (holders, s)"
| "holders_loop w (address # rest) holders s =
     (if address \<noteq> ZERO_ADDRESS then
        (case get_balance w address s of
           (Inl e, s1) \<Rightarrow> holders_loop w rest holders (emit (Print ''Error getting balance'') s1)
         | (Inr balance, s1) \<Rightarrow>
             if balance > 0 then holders_loop w rest (holders @ [(address, balance)]) s1
             else holders_loop w rest holders s1)
      else holders_loop w rest holders s)"

text \<open>
  The addresses are gathered in a \<^verbatim>\<open>set\<close>; the order in which the second loop meets
  them is the world's \<open>set_iter\<close> of the insertion sequence.
\<close>

definition get_top_holders :: "world \<Rightarrow> int \<Rightarrow> tracker \<Rightarrow> (string \<times> real) list \<times> tracker" where
  "get_top_holders w n s =
     (case get_token_transactions w s of (transactions, s1) \<Rightarrow>
        if transactions = [] then ([], s1)
        else
          (case holders_loop w (set_iter w (collect_addresses transactions)) [] s1 of
             (holders, s2) \<Rightarrow> (slice_to (sorted_desc snd holders) n, s2)))"

text \<open>
  \<^verbatim>\<open>holders_data\<close> is a dict that is only ever extended by keys it does not hold: a
  list of (address, balance, last\_tx) in insertion order.
\<close>

definition visit ::
  "world \<Rightarrow> tx \<Rightarrow> string \<Rightarrow> (string \<times> real \<times> string) list \<times> tracker
     \<Rightarrow> (string \<times> real \<times> string) list \<times> tracker" where
  "visit w t address st =
     (case st of (holders_data, s) \<Rightarrow>
        if address \<notin> set (map fst holders_data) \<and> address \<noteq> ZERO_ADDRESS then
          (case get_balance w address s of
             (Inl e, s1) \<Rightarrow> (holders_data, emit (Print ''Error getting balance'') s1)
           | (Inr balance, s1) \<Rightarrow>
               if balance > 0 then
                 (case py_int w (tx_timeStamp t) of
                    None \<Rightarrow> (holders_data, emit (Print ''Error getting balance'') s1)
                  | Some secs \<Rightarrow>
                      (case strftime w secs of
                         None \<Rightarrow> (holders_data, emit (Print ''Error getting balance'') s1)
                       | Some last_tx \<Rightarrow> (holders_data @ [(address, balance, last_tx)], s1)))
               else (holders_data, s1))
        else (holders_data, s))"

fun activity_loop ::
  "world \<Rightarrow> tx list \<Rightarrow> (string \<times> real \<times> string) list \<times> tracker
     \<Rightarrow> (string \<times> real \<times> string) list \<times> tracker" where
  "activity_loop w [] st = st"
| "activity_loop w (t # rest) st =
     activity_loop w rest (visit w t (tx_from t) (visit w t (tx_to t) st))"

definition get_top_with_transactions ::
  "world \<Rightarrow> int \<Rightarrow> tracker \<Rightarrow> (string \<times> real \<times> string) list \<times> tracker" where
  "get_top_with_transactions w n s =
     (case get_token_transactions w s of (transactions, s1) \<Rightarrow>
        if transactions = [] then ([], s1)
        else
          (case activity_loop w transactions ([], s1) of
             (holders_data, s2) \<Rightarrow>
               (slice_to (sorted_desc (\<lambda>x. fst (snd x)) holders_data) n, s2)))"

subsection \<open>Token facts and statistics\<close>

text \<open>
  The whole body of \<^verbatim>\<open>get_token_info\<close> is inside the \<^verbatim>\<open>try\<close>; the three calls are
  made in the order symbol, name, total supply, and the first that fails ends the
  function with \<^verbatim>\<open>{}\<close>, here \<open>None\<close>. A stored dict always has three keys, so it is
  truthy exactly when it is there.
\<close>

definition get_token_info :: "world \<Rightarrow> tracker \<Rightarrow> token_info option \<times> tracker" where
  "get_token_info w s =
     (case is_cache_valid w s of (valid, s1) \<Rightarrow>
        if valid \<and> token_info_cache s1 \<noteq> None
        then (token_info_cache s1, s1)
        else
          (case call_symbol w s1 of
             (None, s2) \<Rightarrow> (None, emit (Print ''Error getting token info'') s2)
           | (Some symbol, s2) \<Rightarrow>
               (case call_name w s2 of
                  (None, s3) \<Rightarrow> (None, emit (Print ''Error getting token info'') s3)
                | (Some name, s3) \<Rightarrow>
                    (case call_totalSupply w s3 of
                       (None, s4) \<Rightarrow> (None, emit (Print ''Error getting token info'') s4)
                     | (Some total_supply, s4) \<Rightarrow>
                         (case format_balance w s4 (uint total_supply) of
                            Inl e \<Rightarrow> (None, emit (Print ''Error getting token info'') s4)
                          | Inr formatted_supply \<Rightarrow>
                              (let info = \<lparr>info_symbol = symbol, info_name = name,
                                           info_totalSupply = formatted_supply\<rparr>;
                                   s5 = s4\<lparr>token_info_cache := Some info\<rparr>
                               in (Some info, update_cache_timestamp w s5)))))))"

record token_stats =
  basic_info :: "token_info option"
  unique_holders :: nat
  total_held :: real
  average_balance :: real

text \<open>
  Python's \<^verbatim>\<open>/\<close> raises \<^verbatim>\<open>ZeroDivisionError\<close> on a zero divisor.
\<close>

definition truediv :: "real \<Rightarrow> nat \<Rightarrow> exn + real" where
  "truediv x k = (if k = 0 then Inl ZeroDivisionError else Inr (x / real k))"

text \<open>
  \<^verbatim>\<open>get_token_stats\<close> answers \<^verbatim>\<open>{}\<close>, here \<open>None\<close>, when anything in its body raises.
\<close>

definition get_token_stats :: "world \<Rightarrow> tracker \<Rightarrow> token_stats option \<times> tracker" where
  "get_token_stats w s =
     (case get_token_info w s of (info, s1) \<Rightarrow>
        (case get_top_holders w 100 s1 of (holders, s2) \<Rightarrow>
           (let total = sum_list (map snd holders);
                k = length holders
            in case (if k > 0 then truediv total k else Inr 0) of
                 Inl e \<Rightarrow> (None, emit (Print ''Error getting token stats'') s2)
               | Inr average \<Rightarrow>
                   (Some \<lparr>basic_info = info, unique_holders = k, total_held = total,
                          average_balance = average\<rparr>, s2))))"

subsection \<open>The history of an address\<close>

record history_entry =
  h_type :: string
  h_counterparty :: string
  h_amount :: real
  h_timestamp :: string

text \<open>
  The entry built for a matching record. \<^verbatim>\<open>int(tx['timeStamp'])\<close>, the conversion of
  the time, \<^verbatim>\<open>int(tx['value'])\<close> and the division in \<^verbatim>\<open>format_balance\<close> may each
  raise; \<open>None\<close> is that exception.
\<close>

definition make_entry :: "world \<Rightarrow> tracker \<Rightarrow> string \<Rightarrow> tx \<Rightarrow> history_entry option" where
  "make_entry w s address t =
     (case py_int w (tx_timeStamp t) of
        None \<Rightarrow> None
      | Some secs \<Rightarrow>
          (case strftime w secs of
             None \<Rightarrow> None
           | Some stamp \<Rightarrow>
               (case py_int w (tx_value t) of
                  None \<Rightarrow> None
                | Some v \<Rightarrow>
                    (case format_balance w s v of
                       Inl e \<Rightarrow> None
                     | Inr amount \<Rightarrow>
                         Some \<lparr>h_type = (if str_lower w (tx_to t) = str_lower w address
                                         then ''receive'' else ''send''),
                               h_counterparty = (if str_lower w (tx_to t) = str_lower w address
                                                 then tx_from t else tx_to t),
                               h_amount = amount,
                               h_timestamp = stamp\<rparr>))))"

text \<open>
  The loop of \<^verbatim>\<open>get_address_history\<close>; the length test comes after the record has
  been handled, whether it matched or not. \<open>None\<close>: an exception left the loop.
\<close>

fun history_loop ::
  "world \<Rightarrow> tracker \<Rightarrow> string \<Rightarrow> int \<Rightarrow> tx list \<Rightarrow> history_entry list \<Rightarrow> history_entry list option" where
  "history_loop w s address limit [] address_txs = Some address_txs"
| "history_loop w s address limit (t # rest) address_txs =
     (if str_lower w (tx_to t) = str_lower w address
         \<or> str_lower w (tx_from t) = str_lower w address then
        (case make_entry w s address t of
           None \<Rightarrow> None
         | Some e \<Rightarrow>
             if int (length (address_txs @ [e])) \<ge> limit then Some (address_txs @ [e])
             else history_loop w s address limit rest (address_txs @ [e]))
      else if int (length address_txs) \<ge> limit then Some address_txs
      else history_loop w s address limit rest address_txs)"

definition get_address_history ::
  "world \<Rightarrow> string \<Rightarrow> int \<Rightarrow> tracker \<Rightarrow> history_entry list \<times> tracker" where
  "get_address_history w address limit s =
     (case get_token_transactions w s of (transactions, s1) \<Rightarrow>
        (case to_checksum_address w address of
           None \<Rightarrow> ([], emit (Print ''Error getting address history'') s1)
         | Some a \<Rightarrow>
             (case history_loop w s1 a limit transactions [] of
                None \<Rightarrow> ([], emit (Print ''Error getting address history'') s1)
              | Some address_txs \<Rightarrow> (address_txs, s1))))"

subsection \<open>The HTTP handlers\<close>

text \<open>
  A response is a body and a status code. \<^verbatim>\<open>request.args.get(key, default, type=int)\<close>
  gives the default when the key is missing and when the conversion fails.
\<close>

datatype body =
    ErrorMessage string
  | ErrorOf exn
  | TopHolders "(string \<times> real) list"
  | Holders "(string \<times> real \<times> string) list"
  | History string "history_entry list"

definition args_get_int :: "world \<Rightarrow> string option \<Rightarrow> int \<Rightarrow> int" where
  "args_get_int w arg dflt =
     (case arg of
        None \<Rightarrow> dflt
      | Some txt \<Rightarrow> (case py_int w txt of None \<Rightarrow> dflt | Some k \<Rightarrow> k))"

definition api_get_top :: "world \<Rightarrow> string option \<Rightarrow> tracker \<Rightarrow> (body \<times> nat) \<times> tracker" where
  "api_get_top w n_arg s =
     (let n = args_get_int w n_arg 10 in
      if n \<le> 0 then ((ErrorMessage ''Parameter 'n' must be positive'', 400), s)
      else (case get_top_holders w n s of
              (top_holders, s1) \<Rightarrow> ((TopHolders top_holders, 200), s1)))"

definition api_get_top_with_transactions ::
  "world \<Rightarrow> string option \<Rightarrow> tracker \<Rightarrow> (body \<times> nat) \<times> tracker" where
  "api_get_top_with_transactions w n_arg s =
     (let n = args_get_int w n_arg 10 in
      if n \<le> 0 then ((ErrorMessage ''Parameter 'n' must be positive'', 400), s)
      else (case get_top_with_transactions w n s of
              (top_holders, s1) \<Rightarrow> ((Holders top_holders, 200), s1)))"

definition api_address_history ::
  "world \<Rightarrow> string option \<Rightarrow> string option \<Rightarrow> tracker \<Rightarrow> (body \<times> nat) \<times> tracker" where
  "api_address_history w address_arg limit_arg s =
     (let limit = args_get_int w limit_arg 100 in
      case address_arg of
        None \<Rightarrow> ((ErrorMessage ''Address parameter is required'', 400), s)
      | Some address \<Rightarrow>
          if address = [] then ((ErrorMessage ''Address parameter is required'', 400), s)
          else (case get_address_history w address limit s of
                  (history, s1) \<Rightarrow> ((History address history, 200), s1)))"

section \<open>Notions used in the statements\<close>

text \<open>
  What \<^verbatim>\<open>_is_cache_valid\<close> answers when it is asked in state \<open>s\<close>: the clock is read
  at the current interaction index and compared with the one shared time stamp.
\<close>

definition cache_fresh :: "world \<Rightarrow> tracker \<Rightarrow> bool" where
  "cache_fresh w s \<longleftrightarrow> clock w (tick s) - last_cache_update s < cache_lifetime s"

text \<open>
  The interactions that happened between a state and a later one, newest first.
\<close>

definition new_events :: "tracker \<Rightarrow> tracker \<Rightarrow> event list" where
  "new_events s s' = take (length (events s') - length (events s)) (events s')"

text \<open>
  The freshness of one cache entry in the words of the specification: an entry is fresh
  iff \<open>now - last_refresh < cache_lifetime\<close>, with the entry's own last refresh.
\<close>

definition spec_entry_fresh :: "real \<Rightarrow> real \<Rightarrow> real \<Rightarrow> bool" where
  "spec_entry_fresh now last_refresh lifetime \<longleftrightarrow> now - last_refresh < lifetime"

text \<open>
  The history of an address in the words of the specification. A record matches an
  address when its sender or its recipient equals the address up to letter case; the
  first \<open>k\<close> matches are taken in the order of the log. A record converts when its
  \<^verbatim>\<open>timeStamp\<close> and \<^verbatim>\<open>value\<close> are numerals, the time can be formatted, and the amount is
  within the range of a double. The entry expected for a matching record that converts
  says whether the address received or sent, names the other party, and carries the
  amount scaled by the precision and the formatted time.
\<close>

definition matches_address :: "world \<Rightarrow> string \<Rightarrow> tx \<Rightarrow> bool" where
  "matches_address w a t \<longleftrightarrow>
     str_lower w (tx_from t) = str_lower w a \<or> str_lower w (tx_to t) = str_lower w a"

definition first_matches :: "world \<Rightarrow> string \<Rightarrow> nat \<Rightarrow> tx list \<Rightarrow> tx list" where
  "first_matches w a k txs = take k (filter (matches_address w a) txs)"

definition record_converts :: "world \<Rightarrow> tracker \<Rightarrow> tx \<Rightarrow> bool" where
  "record_converts w s t \<longleftrightarrow>
     (case py_int w (tx_timeStamp t) of
        None \<Rightarrow> False
      | Some secs \<Rightarrow>
          strftime w secs \<noteq> None
          \<and> (case py_int w (tx_value t) of
                None \<Rightarrow> False
              | Some v \<Rightarrow> \<not> double_overflows (real_of_int v / 10 ^ decimals s)))"

definition expected_entry :: "world \<Rightarrow> tracker \<Rightarrow> string \<Rightarrow> tx \<Rightarrow> history_entry" where
  "expected_entry w s a t =
     \<lparr>h_type = (if str_lower w (tx_to t) = str_lower w a then ''receive'' else ''send''),
      h_counterparty = (if str_lower w (tx_to t) = str_lower w a then tx_from t else tx_to t),
      h_amount = round_double w (real_of_int (the (py_int w (tx_value t))) / 10 ^ decimals s),
      h_timestamp = the (strftime w (the (py_int w (tx_timeStamp t))))\<rparr>"


text \<open>
  What every state of a running tracker satisfies: the precision is the one read at
  construction, \<^verbatim>\<open>decimals()\<close> has been called exactly once, and, in a world whose
  rounding maps no non-negative quotient to a negative double, no cached balance is
  negative.
\<close>

definition rounds_nonneg :: "world \<Rightarrow> bool" where
  "rounds_nonneg w \<longleftrightarrow> (\<forall>x. 0 \<le> x \<longrightarrow> 0 \<le> round_double w x)"

definition tracker_inv :: "world \<Rightarrow> nat \<Rightarrow> tracker \<Rightarrow> bool" where
  "tracker_inv w d s \<longleftrightarrow>
     decimals s = d
     \<and> (rounds_nonneg w \<longrightarrow> (\<forall>a v. balance_cache s a = Some v \<longrightarrow> 0 \<le> v))
     \<and> count_list (events s) CallDecimals = 1"

text \<open>
  The states a tracker can be in: the one \<^verbatim>\<open>__init__\<close> builds, and those reached from
  it by the public methods.
\<close>

inductive reachable :: "world \<Rightarrow> tracker \<Rightarrow> bool" for w :: world where
  constructed: "init w = Inr s \<Longrightarrow> reachable w s"
| after_get_balance: "reachable w s \<Longrightarrow> reachable w (snd (get_balance w address s))"
| after_get_top_holders: "reachable w s \<Longrightarrow> reachable w (snd (get_top_holders w n s))"
| after_get_top_with_transactions:
    "reachable w s \<Longrightarrow> reachable w (snd (get_top_with_transactions w n s))"
| after_get_token_info: "reachable w s \<Longrightarrow> reachable w (snd (get_token_info w s))"
| after_get_token_stats: "reachable w s \<Longrightarrow> reachable w (snd (get_token_stats w s))"
| after_get_address_history:
    "reachable w s \<Longrightarrow> reachable w (snd (get_address_history w address limit s))"

text \<open>
  The time string \<^verbatim>\<open>get_top_with_transactions\<close> computes for a record, when the
  conversions do not raise; and the entries of a holder table that stem from records of
  a given list: each has a non-zero address touched by one of the records, a positive
  balance, and the time string of that record.
\<close>

definition stamp_of :: "world \<Rightarrow> tx \<Rightarrow> string option" where
  "stamp_of w t = (case py_int w (tx_timeStamp t) of None \<Rightarrow> None | Some secs \<Rightarrow> strftime w secs)"

definition recorded_in ::
  "world \<Rightarrow> tx list \<Rightarrow> (string \<times> real \<times> string) list \<Rightarrow> bool" where
  "recorded_in w txs new \<longleftrightarrow>
     (\<forall>x \<in> set new. fst x \<noteq> ZERO_ADDRESS \<and> 0 < fst (snd x)
        \<and> (\<exists>t \<in> set txs. (tx_to t = fst x \<or> tx_from t = fst x)
              \<and> stamp_of w t = Some (snd (snd x))))"

section \<open>Concrete worlds\<close>

text \<open>
  Rounding to the nearest double, ties to even. A positive number is scaled by powers
  of two into \<open>[1, 2)\<close>, or as far as the smallest exponent \<open>-1022\<close> allows; its 52
  fractional binary digits are rounded, and the result is scaled back.
\<close>

definition round_half_even :: "real \<Rightarrow> int" where
  "round_half_even m =
     (let f = \<lfloor>m\<rfloor> in
      if m - of_int f < 1 / 2 then f
      else if 1 / 2 < m - of_int f then f + 1
      else if even f then f else f + 1)"

function scale_down :: "real \<Rightarrow> int \<Rightarrow> real \<times> int" where
  "scale_down x e = (if 2 \<le> x then scale_down (x / 2) (e + 1) else (x, e))"
  by pat_completeness auto
termination
proof (relation "measure (\<lambda>(x, e). nat \<lfloor>x\<rfloor>)")
  show "wf (measure (\<lambda>(x, e). nat \<lfloor>x\<rfloor>))" by simp
next
  fix x :: real and e :: int
  assume h: "2 \<le> x"
  have "x / 2 \<le> x - 1" using h by simp
  then have "\<lfloor>x / 2\<rfloor> \<le> \<lfloor>x - 1\<rfloor>" by (rule floor_mono)
  moreover have "\<lfloor>x - 1\<rfloor> = \<lfloor>x\<rfloor> - 1" by simp
  moreover have "1 \<le> \<lfloor>x\<rfloor>" using h by (simp add: le_floor_iff)
  ultimately show "((x / 2, e + 1), (x, e)) \<in> measure (\<lambda>(x, e). nat \<lfloor>x\<rfloor>)"
    by simp
qed

function scale_up :: "real \<Rightarrow> int \<Rightarrow> real \<times> int" where
  "scale_up x e = (if x < 1 \<and> - 1022 < e then scale_up (2 * x) (e - 1) else (x, e))"
  by pat_completeness auto
termination
  by (relation "measure (\<lambda>(x, e). nat (e + 1022))") auto

declare scale_down.simps [simp del] scale_up.simps [simp del]

definition pow2 :: "int \<Rightarrow> real" where
  "pow2 e = (if 0 \<le> e then 2 ^ nat e else 1 / 2 ^ nat (- e))"

definition ieee_round_pos :: "real \<Rightarrow> real" where
  "ieee_round_pos x =
     (case scale_down x 0 of (y, d) \<Rightarrow>
        (case scale_up y d of (m, e) \<Rightarrow>
           of_int (round_half_even (m * 2 ^ 52)) * pow2 (e - 52)))"

definition ieee_round :: "real \<Rightarrow> real" where
  "ieee_round x =
     (if x = 0 then 0 else if x < 0 then - ieee_round_pos (- x) else ieee_round_pos x)"

text \<open>
  Library functions for the concrete runs: lower-casing of ASCII letters and the
  reading of a decimal numeral with an optional minus sign.
\<close>

definition ascii_lower :: "char \<Rightarrow> char" where
  "ascii_lower c =
     (case map_of
        [(CHR ''A'', CHR ''a''), (CHR ''B'', CHR ''b''), (CHR ''C'', CHR ''c''), (CHR ''D'', CHR ''d''),
         (CHR ''E'', CHR ''e''), (CHR ''F'', CHR ''f''), (CHR ''G'', CHR ''g''), (CHR ''H'', CHR ''h''),
         (CHR ''I'', CHR ''i''), (CHR ''J'', CHR ''j''), (CHR ''K'', CHR ''k''), (CHR ''L'', CHR ''l''),
         (CHR ''M'', CHR ''m''), (CHR ''N'', CHR ''n''), (CHR ''O'', CHR ''o''), (CHR ''P'', CHR ''p''),
         (CHR ''Q'', CHR ''q''), (CHR ''R'', CHR ''r''), (CHR ''S'', CHR ''s''), (CHR ''T'', CHR ''t''),
         (CHR ''U'', CHR ''u''), (CHR ''V'', CHR ''v''), (CHR ''W'', CHR ''w''), (CHR ''X'', CHR ''x''),
         (CHR ''Y'', CHR ''y''), (CHR ''Z'', CHR ''z'')] c of
        None \<Rightarrow> c
      | Some l \<Rightarrow> l)"

definition digit_val :: "char \<Rightarrow> nat option" where
  "digit_val c =
     map_of
       [(CHR ''0'', 0), (CHR ''1'', 1), (CHR ''2'', 2), (CHR ''3'', 3), (CHR ''4'', 4),
        (CHR ''5'', 5), (CHR ''6'', 6), (CHR ''7'', 7), (CHR ''8'', 8), (CHR ''9'', 9)] c"

fun parse_digits :: "string \<Rightarrow> nat \<Rightarrow> nat option" where
  "parse_digits [] acc = Some acc"
| "parse_digits (c # cs) acc =
     (case digit_val c of None \<Rightarrow> None | Some d \<Rightarrow> parse_digits cs (10 * acc + d))"

definition decimal_int :: "string \<Rightarrow> int option" where
  "decimal_int txt =
     (case txt of
        [] \<Rightarrow> None
      | c # cs \<Rightarrow>
          if c = CHR ''-''
          then (if cs = [] then None else map_option (\<lambda>k. - int k) (parse_digits cs 0))
          else map_option int (parse_digits txt 0))"

text \<open>
  The scenario of the specification: two transfers, six decimals, balances 0, 5 and 1.
  The clock advances one second per interaction.
\<close>

definition demo_log :: "tx list" where
  "demo_log =
     [\<lparr>tx_from = ''0xAAA'', tx_to = ''0xBBB'', tx_value = ''5000000'', tx_timeStamp = ''200''\<rparr>,
      \<lparr>tx_from = ''0xBBB'', tx_to = ''0xCCC'', tx_value = ''1000000'', tx_timeStamp = ''100''\<rparr>]"

definition demo_world :: world where
  "demo_world =
     \<lparr>clock = (\<lambda>k. 1000 + real k),
      rpc_decimals = (\<lambda>k. Some 6),
      rpc_balanceOf = (\<lambda>k a. if a = ''0xBBB'' then Some 5000000
                              else if a = ''0xCCC'' then Some 1000000 else Some 0),
      rpc_symbol = (\<lambda>k. Some ''TKN''),
      rpc_name = (\<lambda>k. Some ''Token''),
      rpc_totalSupply = (\<lambda>k. Some 6000000),
      http_tokentx = (\<lambda>k. JsonData (Some ''1'') (Some demo_log)),
      to_checksum_address = (\<lambda>a. if a = [] then None else Some a),
      str_lower = map ascii_lower,
      py_int = decimal_int,
      strftime = (\<lambda>t. if t = 200 then Some ''1970-01-01 00:03:20''
                        else if t = 150 then Some ''1970-01-01 00:02:30''
                        else if t = 100 then Some ''1970-01-01 00:01:40''
                        else if t = 50 then Some ''1970-01-01 00:00:50'' else None),
      set_iter = remdups,
      round_double = ieee_round\<rparr>"

definition demo_tracker :: tracker where
  "demo_tracker =
     \<lparr>decimals = 6, balance_cache = Map.empty, tx_cache = [], token_info_cache = None,
      cache_lifetime = 300, last_cache_update = 0, events = [CallDecimals]\<rparr>"

text \<open>A provider that answers with status 1 and no transfers.\<close>

definition empty_log_world :: world where
  "empty_log_world = demo_world\<lparr>http_tokentx := (\<lambda>k. JsonData (Some ''1'') (Some []))\<rparr>"

text \<open>Both providers down.\<close>

definition down_world :: world where
  "down_world =
     demo_world\<lparr>rpc_balanceOf := (\<lambda>k a. None), rpc_symbol := (\<lambda>k. None),
                http_tokentx := (\<lambda>k. RequestRaises)\<rparr>"

text \<open>
  A long pause after the fourth interaction, during which the balance of \<open>0xBBB\<close>
  changes from 5 to 7.
\<close>

definition late_world :: world where
  "late_world =
     demo_world\<lparr>clock := (\<lambda>k. if k < 4 then 1000 + real k else 5000 + real k),
                rpc_balanceOf := (\<lambda>k a. if a = ''0xBBB''
                                         then (if k < 4 then Some 5000000 else Some 7000000)
                                         else if a = ''0xCCC'' then Some 1000000 else Some 0)\<rparr>"

text \<open>
  The states of the late world after the log was fetched early, and after the balance
  of \<open>0xBBB\<close> was fetched early.
\<close>

definition late_after_log :: tracker where
  "late_after_log = snd (get_token_transactions late_world demo_tracker)"

definition late_after_balance :: tracker where
  "late_after_balance = snd (get_balance late_world ''0xBBB'' demo_tracker)"

definition late_after_other :: tracker where
  "late_after_other = snd (get_balance late_world ''0xCCC'' late_after_balance)"

text \<open>The states of the scenario after one fetch in each category.\<close>

definition demo_after_balance :: tracker where
  "demo_after_balance = snd (get_balance demo_world ''0xBBB'' demo_tracker)"

definition demo_after_log :: tracker where
  "demo_after_log = snd (get_token_transactions demo_world demo_tracker)"

definition demo_after_info :: tracker where
  "demo_after_info = snd (get_token_info demo_world demo_tracker)"



text \<open>
  The provider of balances fails for \<open>0xBBB\<close> during the first ten interactions and
  answers afterwards.
\<close>

definition flaky_world :: world where
  "flaky_world =
     demo_world\<lparr>rpc_balanceOf := (\<lambda>k a. if a = ''0xBBB''
                                         then (if k < 10 then None else Some 5000000)
                                         else if a = ''0xCCC'' then Some 1000000 else Some 0)\<rparr>"

text \<open>A log whose newest record carries a time stamp that is not a numeral.\<close>

definition bad_stamp_world :: world where
  "bad_stamp_world =
     demo_world\<lparr>http_tokentx := (\<lambda>k. JsonData (Some ''1'')
        (Some [\<lparr>tx_from = ''0xAAA'', tx_to = ''0xBBB'', tx_value = ''5000000'',
                 tx_timeStamp = ''soon''\<rparr>]))\<rparr>"

text \<open>
  A log of four records; the second does not touch \<open>0xBBB\<close>, the others do.
\<close>

definition history_log :: "tx list" where
  "history_log =
     [\<lparr>tx_from = ''0xAAA'', tx_to = ''0xBBB'', tx_value = ''5000000'', tx_timeStamp = ''200''\<rparr>,
      \<lparr>tx_from = ''0xCCC'', tx_to = ''0xAAA'', tx_value = ''2000000'', tx_timeStamp = ''150''\<rparr>,
      \<lparr>tx_from = ''0xBBB'', tx_to = ''0xCCC'', tx_value = ''1000000'', tx_timeStamp = ''100''\<rparr>,
      \<lparr>tx_from = ''0xAAA'', tx_to = ''0xBBB'', tx_value = ''3000000'', tx_timeStamp = ''50''\<rparr>]"

definition history_world :: world where
  "history_world = demo_world\<lparr>http_tokentx := (\<lambda>k. JsonData (Some ''1'') (Some history_log))\<rparr>"

text \<open>
  The repository's own test: a raw balance of \<open>10 ^ 16\<close> with 18 decimals.
\<close>

definition test_world :: world where
  "test_world =
     demo_world\<lparr>rpc_decimals := (\<lambda>k. Some 18),
                rpc_balanceOf := (\<lambda>k a. Some 10000000000000000)\<rparr>"

definition test_tracker :: tracker where
  "test_tracker = demo_tracker\<lparr>decimals := 18\<rparr>"

text \<open>A log whose only record carries an amount beyond the range of a double.\<close>

definition overflow_world :: world where
  "overflow_world =
     demo_world\<lparr>http_tokentx := (\<lambda>k. JsonData (Some ''1'')
        (Some [\<lparr>tx_from = ''0xAAA'', tx_to = ''0xBBB'',
                 tx_value = CHR ''1'' # replicate 320 (CHR ''0''), tx_timeStamp = ''200''\<rparr>]))\<rparr>"

section \<open>Unfolding rules\<close>

text \<open>
  The definitions that a run in a concrete world unfolds: the interactions, the cache
  operations, the ranking, the rounding to doubles, and the scenario of the
  specification.
\<close>

lemma scale_down_step: "2 \<le> x \<Longrightarrow> scale_down x e = scale_down (x / 2) (e + 1)"
  by (subst scale_down.simps) simp

lemma scale_down_stop: "\<not> 2 \<le> x \<Longrightarrow> scale_down x e = (x, e)"
  by (subst scale_down.simps) simp

lemma scale_up_step: "x < 1 \<Longrightarrow> - 1022 < e \<Longrightarrow> scale_up x e = scale_up (2 * x) (e - 1)"
  by (subst scale_up.simps) simp

lemma scale_up_stop: "\<not> (x < 1 \<and> - 1022 < e) \<Longrightarrow> scale_up x e = (x, e)"
  by (subst scale_up.simps) auto

lemmas ieee_defs = ieee_round_def ieee_round_pos_def pow2_def round_half_even_def
  scale_down_step scale_down_stop scale_up_step scale_up_stop

lemmas io_defs = time_time_def emit_def tick_def call_balanceOf_def call_symbol_def
  call_name_def call_totalSupply_def requests_get_def

lemmas run_defs = get_balance_def get_token_transactions_def get_token_info_def
  is_cache_valid_def update_cache_timestamp_def format_balance_def double_overflows_def
  cache_fresh_def new_events_def io_defs Let_def

lemmas rank_defs = get_top_holders_def get_top_with_transactions_def visit_def slice_to_def
  sorted_desc_def collect_addresses_def ZERO_ADDRESS_def

lemmas lib_defs = ascii_lower_def digit_val_def decimal_int_def

lemmas demo_defs = demo_world_def demo_tracker_def demo_log_def ieee_defs

section \<open>The cache operations, case by case\<close>

lemma is_cache_valid_eq: "is_cache_valid w s = (cache_fresh w s, emit ReadClock s)"
  by (simp add: is_cache_valid_def cache_fresh_def io_defs)

lemma new_events_eq: "events s' = xs @ events s \<Longrightarrow> new_events s s' = xs"
  by (simp add: new_events_def)

lemma new_events_emit [simp]: "new_events s (emit e s) = [e]"
  by (simp add: new_events_def emit_def)

subsection \<open>\<^verbatim>\<open>format_balance\<close>\<close>

text \<open>
  The quotient of a \<^verbatim>\<open>uint256\<close> by a power of ten is below \<open>2 ^ 256\<close>, far inside the
  range of a double: the division of \<^verbatim>\<open>format_balance\<close> never raises on a provider's
  amount.
\<close>

lemma quotient_in_range:
  assumes "0 \<le> x" and "x < 2 ^ 256"
  shows "\<not> double_overflows (x / 10 ^ d)"
proof -
  have p: "(1::real) \<le> 10 ^ d" by simp
  have "x * 1 \<le> x * 10 ^ d" by (rule mult_left_mono [OF p assms(1)])
  then have "x / 10 ^ d \<le> x" by (simp add: divide_le_eq)
  then have c: "x / 10 ^ d < 2 ^ 256" using assms(2) by linarith
  have d: "0 \<le> x / 10 ^ d" using assms(1) by simp
  have "(2::real) ^ 256 \<le> 2 ^ 1024 - 2 ^ 970" by simp
  then show ?thesis
    unfolding double_overflows_def using c d by linarith
qed

lemma word_quotient_in_range:
  "\<not> double_overflows (real_of_int (uint (raw :: 256 word)) / 10 ^ d)"
proof (rule quotient_in_range)
  show "0 \<le> real_of_int (uint raw)"
    using uint_nonnegative [of raw] by (simp only: of_int_0_le_iff)
  have "uint raw < 2 ^ 256" using uint_bounded [of raw] by simp
  then have "real_of_int (uint raw) < real_of_int (2 ^ 256)" by (simp only: of_int_less_iff)
  then show "real_of_int (uint raw) < 2 ^ 256" by (simp only: of_int_power of_int_numeral)
qed

lemma format_balance_word:
  "format_balance w s (uint (raw :: 256 word))
     = Inr (round_double w (real (unat raw) / 10 ^ decimals s))"
proof -
  have "real_of_int (uint raw) = real (unat raw)" by simp
  then show ?thesis
    using word_quotient_in_range [of raw "decimals s"]
    by (simp add: format_balance_def Let_def)
qed

subsection \<open>\<^verbatim>\<open>get_balance\<close>\<close>

lemma get_balance_invalid:
  "to_checksum_address w address = None \<Longrightarrow>
   get_balance w address s = (Inl (InvalidAddress address), s)"
  by (simp add: get_balance_def)

lemma get_balance_hit:
  "to_checksum_address w address = Some a \<Longrightarrow> cache_fresh w s \<Longrightarrow> balance_cache s a = Some v \<Longrightarrow>
   get_balance w address s = (Inr v, emit ReadClock s)"
  by (simp add: get_balance_def is_cache_valid_eq emit_def)

lemma get_balance_miss_fail:
  "to_checksum_address w address = Some a \<Longrightarrow>
   \<not> (cache_fresh w s \<and> balance_cache s a \<noteq> None) \<Longrightarrow>
   rpc_balanceOf w (Suc (tick s)) a = None \<Longrightarrow>
   get_balance w address s =
     (Inr 0, s\<lparr>events := Print ''Error getting balance'' # CallBalanceOf a # ReadClock # events s\<rparr>)"
  by (auto simp add: get_balance_def is_cache_valid_eq io_defs)

lemma get_balance_miss_ok:
  "to_checksum_address w address = Some a \<Longrightarrow>
   \<not> (cache_fresh w s \<and> balance_cache s a \<noteq> None) \<Longrightarrow>
   rpc_balanceOf w (Suc (tick s)) a = Some raw \<Longrightarrow>
   get_balance w address s =
     (Inr (round_double w (real (unat raw) / 10 ^ decimals s)),
      s\<lparr>balance_cache := (balance_cache s)(a \<mapsto> round_double w (real (unat raw) / 10 ^ decimals s)),
        last_cache_update := clock w (tick s + 2),
        events := ReadClock # CallBalanceOf a # ReadClock # events s\<rparr>)"
  by (auto simp add: get_balance_def is_cache_valid_eq io_defs update_cache_timestamp_def
      format_balance_word Let_def)

subsection \<open>\<^verbatim>\<open>_get_token_transactions\<close>\<close>

lemma get_token_transactions_hit:
  "cache_fresh w s \<Longrightarrow> tx_cache s \<noteq> [] \<Longrightarrow>
   get_token_transactions w s = (tx_cache s, emit ReadClock s)"
  by (simp add: get_token_transactions_def is_cache_valid_eq emit_def)

lemma get_token_transactions_miss_ok:
  "\<not> (cache_fresh w s \<and> tx_cache s \<noteq> []) \<Longrightarrow>
   http_tokentx w (Suc (tick s)) = JsonData (Some ''1'') (Some txs) \<Longrightarrow>
   get_token_transactions w s =
     (txs, s\<lparr>tx_cache := txs, last_cache_update := clock w (tick s + 2),
             events := ReadClock # CallTokenTx # ReadClock # events s\<rparr>)"
  by (auto simp add: get_token_transactions_def is_cache_valid_eq io_defs
      update_cache_timestamp_def Let_def)

lemma get_token_transactions_miss_raises:
  "\<not> (cache_fresh w s \<and> tx_cache s \<noteq> []) \<Longrightarrow>
   http_tokentx w (Suc (tick s)) = RequestRaises \<or> http_tokentx w (Suc (tick s)) = JsonData None r \<Longrightarrow>
   get_token_transactions w s =
     ([], s\<lparr>events := Print ''Error getting transactions'' # CallTokenTx # ReadClock # events s\<rparr>)"
  by (auto simp add: get_token_transactions_def is_cache_valid_eq io_defs)

lemma get_token_transactions_miss_rejected:
  "\<not> (cache_fresh w s \<and> tx_cache s \<noteq> []) \<Longrightarrow>
   http_tokentx w (Suc (tick s)) = JsonData (Some status) r \<Longrightarrow>
   status \<noteq> ''1'' \<or> r = None \<Longrightarrow>
   get_token_transactions w s = ([], s\<lparr>events := CallTokenTx # ReadClock # events s\<rparr>)"
  by (auto simp add: get_token_transactions_def is_cache_valid_eq io_defs)

subsection \<open>\<^verbatim>\<open>get_token_info\<close>\<close>

lemma get_token_info_hit:
  "cache_fresh w s \<Longrightarrow> token_info_cache s = Some info \<Longrightarrow>
   get_token_info w s = (Some info, emit ReadClock s)"
  by (simp add: get_token_info_def is_cache_valid_eq emit_def)

lemma get_token_info_miss_ok:
  "\<not> (cache_fresh w s \<and> token_info_cache s \<noteq> None) \<Longrightarrow>
   rpc_symbol w (Suc (tick s)) = Some sy \<Longrightarrow>
   rpc_name w (tick s + 2) = Some nm \<Longrightarrow>
   rpc_totalSupply w (tick s + 3) = Some tsupply \<Longrightarrow>
   get_token_info w s =
     (Some \<lparr>info_symbol = sy, info_name = nm,
             info_totalSupply = round_double w (real (unat tsupply) / 10 ^ decimals s)\<rparr>,
      s\<lparr>token_info_cache :=
          Some \<lparr>info_symbol = sy, info_name = nm,
                 info_totalSupply = round_double w (real (unat tsupply) / 10 ^ decimals s)\<rparr>,
        last_cache_update := clock w (tick s + 4),
        events := ReadClock # CallTotalSupply # CallName # CallSymbol # ReadClock # events s\<rparr>)"
  by (auto simp add: get_token_info_def is_cache_valid_eq io_defs update_cache_timestamp_def
      format_balance_word Let_def eval_nat_numeral)

lemma get_token_info_miss_fail:
  "\<not> (cache_fresh w s \<and> token_info_cache s \<noteq> None) \<Longrightarrow>
   rpc_symbol w (Suc (tick s)) = None \<or> rpc_name w (tick s + 2) = None
     \<or> rpc_totalSupply w (tick s + 3) = None \<Longrightarrow>
   fst (get_token_info w s) = None
   \<and> token_info_cache (snd (get_token_info w s)) = token_info_cache s
   \<and> last_cache_update (snd (get_token_info w s)) = last_cache_update s"
  by (auto simp add: get_token_info_def is_cache_valid_eq io_defs eval_nat_numeral
      split: option.splits sum.splits)

lemma get_token_transactions_miss_calls:
  "\<not> (cache_fresh w s \<and> tx_cache s \<noteq> []) \<Longrightarrow>
   CallTokenTx \<in> set (new_events s (snd (get_token_transactions w s)))"
  by (auto simp add: get_token_transactions_def is_cache_valid_eq io_defs new_events_def
      update_cache_timestamp_def Let_def split: tokentx_reply.splits option.splits)

section \<open>The transfer log is served from the cache only when it is non-empty\<close>

text \<open>
  C10. The log fetcher answers from the cache exactly when the shared time stamp is
  fresh and the stored log is non-empty, and then it returns the stored log. With an
  empty stored log it asks the provider again, whatever the clock says. The stored log
  is empty after construction, and a successful fetch of an empty list stores the empty
  list and resets the time stamp all the same.
\<close>

theorem tx_cache_hit_needs_nonempty_log:
  "(CallTokenTx \<notin> set (new_events s (snd (get_token_transactions w s)))
      \<longleftrightarrow> cache_fresh w s \<and> tx_cache s \<noteq> [])
   \<and> (cache_fresh w s \<and> tx_cache s \<noteq> [] \<longrightarrow>
        get_token_transactions w s = (tx_cache s, emit ReadClock s))
   \<and> (tx_cache s = [] \<longrightarrow>
        CallTokenTx \<in> set (new_events s (snd (get_token_transactions w s))))
   \<and> (\<forall>d. init w = Inr d \<longrightarrow> tx_cache d = [])
   \<and> (\<not> (cache_fresh w s \<and> tx_cache s \<noteq> [])
        \<and> http_tokentx w (Suc (tick s)) = JsonData (Some ''1'') (Some []) \<longrightarrow>
        tx_cache (snd (get_token_transactions w s)) = []
        \<and> last_cache_update (snd (get_token_transactions w s)) = clock w (tick s + 2))"
proof (intro conjI impI allI)
  show "CallTokenTx \<notin> set (new_events s (snd (get_token_transactions w s)))
          \<longleftrightarrow> cache_fresh w s \<and> tx_cache s \<noteq> []"
  proof (cases "cache_fresh w s \<and> tx_cache s \<noteq> []")
    case True
    then show ?thesis by (simp add: get_token_transactions_hit)
  next
    case False
    then show ?thesis using get_token_transactions_miss_calls [of w s] by blast
  qed
next
  assume "cache_fresh w s \<and> tx_cache s \<noteq> []"
  then show "get_token_transactions w s = (tx_cache s, emit ReadClock s)"
    by (simp add: get_token_transactions_hit)
next
  assume "tx_cache s = []"
  then show "CallTokenTx \<in> set (new_events s (snd (get_token_transactions w s)))"
    by (simp add: get_token_transactions_miss_calls)
next
  fix d assume "init w = Inr d"
  then show "tx_cache d = []"
    by (auto simp add: init_def split: option.splits)
next
  assume h: "\<not> (cache_fresh w s \<and> tx_cache s \<noteq> [])
             \<and> http_tokentx w (Suc (tick s)) = JsonData (Some ''1'') (Some [])"
  then have "get_token_transactions w s =
     ([], s\<lparr>tx_cache := [], last_cache_update := clock w (tick s + 2),
            events := ReadClock # CallTokenTx # ReadClock # events s\<rparr>)"
    using get_token_transactions_miss_ok [of w s "[]"] by blast
  then show "tx_cache (snd (get_token_transactions w s)) = []"
    and "last_cache_update (snd (get_token_transactions w s)) = clock w (tick s + 2)"
    by simp_all
qed

theorem tx_cache_hit_needs_nonempty_log_witness:
  "init empty_log_world = Inr demo_tracker
   \<and> tx_cache demo_tracker = []
   \<and> tx_cache (snd (get_token_transactions empty_log_world demo_tracker)) = []
   \<and> last_cache_update (snd (get_token_transactions empty_log_world demo_tracker)) = 1003
   \<and> cache_fresh empty_log_world (snd (get_token_transactions empty_log_world demo_tracker))
   \<and> CallTokenTx \<in> set (new_events (snd (get_token_transactions empty_log_world demo_tracker))
        (snd (get_token_transactions empty_log_world
               (snd (get_token_transactions empty_log_world demo_tracker)))))
   \<and> tx_cache (snd (get_token_transactions demo_world demo_tracker)) \<noteq> []
   \<and> get_token_transactions demo_world (snd (get_token_transactions demo_world demo_tracker))
       = (demo_log, emit ReadClock (snd (get_token_transactions demo_world demo_tracker)))"
  using tx_cache_hit_needs_nonempty_log [of demo_tracker empty_log_world]
    tx_cache_hit_needs_nonempty_log
      [of "snd (get_token_transactions empty_log_world demo_tracker)" empty_log_world]
    tx_cache_hit_needs_nonempty_log
      [of "snd (get_token_transactions demo_world demo_tracker)" demo_world]
  by (simp add: run_defs init_def empty_log_world_def demo_world_def demo_tracker_def demo_log_def)

section \<open>Failures of the providers are answered with empty values\<close>

text \<open>
  C4. A \<^verbatim>\<open>balanceOf\<close> call that raises makes \<^verbatim>\<open>get_balance\<close> return 0; a request for
  the transfer log that raises, or whose reply is anything but a status-1 object with a
  result, makes the log fetcher return the empty list; a failure of any of the three
  metadata calls makes \<^verbatim>\<open>get_token_info\<close> return the empty object. \<^verbatim>\<open>get_balance\<close>
  raises only for a string that is not an address.
\<close>

theorem upstream_failure_degrades_to_empty:
  "(to_checksum_address w address = Some a
      \<and> \<not> (cache_fresh w s \<and> balance_cache s a \<noteq> None)
      \<and> rpc_balanceOf w (Suc (tick s)) a = None \<longrightarrow>
      fst (get_balance w address s) = Inr 0)
   \<and> (\<not> (cache_fresh w s \<and> tx_cache s \<noteq> [])
      \<and> (\<forall>txs. http_tokentx w (Suc (tick s)) \<noteq> JsonData (Some ''1'') (Some txs)) \<longrightarrow>
      fst (get_token_transactions w s) = [])
   \<and> (\<not> (cache_fresh w s \<and> token_info_cache s \<noteq> None)
      \<and> (rpc_symbol w (Suc (tick s)) = None \<or> rpc_name w (tick s + 2) = None
          \<or> rpc_totalSupply w (tick s + 3) = None) \<longrightarrow>
      fst (get_token_info w s) = None)
   \<and> (\<forall>e. fst (get_balance w address s) = Inl e \<longrightarrow> to_checksum_address w address = None)"
proof (intro conjI impI allI)
  assume "to_checksum_address w address = Some a
      \<and> \<not> (cache_fresh w s \<and> balance_cache s a \<noteq> None)
      \<and> rpc_balanceOf w (Suc (tick s)) a = None"
  then show "fst (get_balance w address s) = Inr 0"
    by (simp add: get_balance_miss_fail)
next
  assume h: "\<not> (cache_fresh w s \<and> tx_cache s \<noteq> [])
      \<and> (\<forall>txs. http_tokentx w (Suc (tick s)) \<noteq> JsonData (Some ''1'') (Some txs))"
  show "fst (get_token_transactions w s) = []"
  proof (cases "http_tokentx w (Suc (tick s))")
    case RequestRaises
    with h show ?thesis by (simp add: get_token_transactions_miss_raises)
  next
    case (JsonData status r)
    show ?thesis
    proof (cases status)
      case None
      with h JsonData show ?thesis
        using get_token_transactions_miss_raises [of w s r] by simp
    next
      case (Some st)
      with h JsonData have "st \<noteq> ''1'' \<or> r = None" by (cases r) auto
      with h JsonData Some show ?thesis
        using get_token_transactions_miss_rejected [of w s st r] by simp
    qed
  qed
next
  assume "\<not> (cache_fresh w s \<and> token_info_cache s \<noteq> None)
      \<and> (rpc_symbol w (Suc (tick s)) = None \<or> rpc_name w (tick s + 2) = None
          \<or> rpc_totalSupply w (tick s + 3) = None)"
  then show "fst (get_token_info w s) = None"
    using get_token_info_miss_fail [of w s] by blast
next
  fix e assume "fst (get_balance w address s) = Inl e"
  then show "to_checksum_address w address = None"
    by (auto simp add: get_balance_def is_cache_valid_eq io_defs Let_def
        split: option.splits sum.splits if_splits)
qed

theorem upstream_failure_degrades_to_empty_witness:
  "to_checksum_address down_world ''0xBBB'' = Some ''0xBBB''
   \<and> \<not> (cache_fresh down_world demo_tracker \<and> balance_cache demo_tracker ''0xBBB'' \<noteq> None)
   \<and> rpc_balanceOf down_world (Suc (tick demo_tracker)) ''0xBBB'' = None
   \<and> fst (get_balance down_world ''0xBBB'' demo_tracker) = Inr 0
   \<and> http_tokentx down_world (Suc (tick demo_tracker)) = RequestRaises
   \<and> fst (get_token_transactions down_world demo_tracker) = []
   \<and> rpc_symbol down_world (Suc (tick demo_tracker)) = None
   \<and> fst (get_token_info down_world demo_tracker) = None
   \<and> fst (get_balance down_world [] demo_tracker) = Inl (InvalidAddress [])
   \<and> to_checksum_address down_world [] = None"
  using upstream_failure_degrades_to_empty [of down_world "''0xBBB''" "''0xBBB''" demo_tracker]
    upstream_failure_degrades_to_empty [of down_world "[]" "[]" demo_tracker]
  by (simp add: run_defs down_world_def demo_world_def demo_tracker_def)

section \<open>Statistics\<close>






section \<open>One time stamp for every cached category\<close>

lemma served_if_fresh:
  "cache_fresh w s \<Longrightarrow>
   (tx_cache s \<noteq> [] \<longrightarrow> get_token_transactions w s = (tx_cache s, emit ReadClock s))
   \<and> (token_info_cache s \<noteq> None \<longrightarrow>
        get_token_info w s = (token_info_cache s, emit ReadClock s))
   \<and> (to_checksum_address w address = Some b \<and> balance_cache s b = Some v \<longrightarrow>
        get_balance w address s = (Inr v, emit ReadClock s))"
  by (auto simp add: get_token_transactions_hit get_token_info_hit get_balance_hit)

text \<open>
  C9. There is one \<^verbatim>\<open>_last_cache_update\<close>. A successful fetch of a balance, of the
  transfer log or of the token facts sets it to the time read after the fetch. If the
  next read of the clock is less than \<^verbatim>\<open>_cache_lifetime\<close> later, whatever the other
  categories held before the fetch is served from the cache, with no condition on when
  those entries were stored or on the time stamp before the fetch.
\<close>

theorem successful_fetch_refreshes_every_category:
  "(to_checksum_address w address = Some a
      \<and> \<not> (cache_fresh w s \<and> balance_cache s a \<noteq> None)
      \<and> rpc_balanceOf w (Suc (tick s)) a = Some raw \<longrightarrow>
      last_cache_update (snd (get_balance w address s)) = clock w (tick s + 2)
      \<and> (clock w (tick s + 3) - clock w (tick s + 2) < cache_lifetime s \<longrightarrow>
            (tx_cache s \<noteq> [] \<longrightarrow>
               get_token_transactions w (snd (get_balance w address s))
                 = (tx_cache s, emit ReadClock (snd (get_balance w address s))))
          \<and> (token_info_cache s \<noteq> None \<longrightarrow>
               get_token_info w (snd (get_balance w address s))
                 = (token_info_cache s, emit ReadClock (snd (get_balance w address s))))
          \<and> (to_checksum_address w other = Some b \<and> b \<noteq> a \<and> balance_cache s b = Some v \<longrightarrow>
               get_balance w other (snd (get_balance w address s))
                 = (Inr v, emit ReadClock (snd (get_balance w address s))))))
   \<and> (\<not> (cache_fresh w s \<and> tx_cache s \<noteq> [])
      \<and> http_tokentx w (Suc (tick s)) = JsonData (Some ''1'') (Some txs) \<longrightarrow>
      last_cache_update (snd (get_token_transactions w s)) = clock w (tick s + 2)
      \<and> (clock w (tick s + 3) - clock w (tick s + 2) < cache_lifetime s \<longrightarrow>
            (token_info_cache s \<noteq> None \<longrightarrow>
               get_token_info w (snd (get_token_transactions w s))
                 = (token_info_cache s, emit ReadClock (snd (get_token_transactions w s))))
          \<and> (to_checksum_address w other = Some b \<and> balance_cache s b = Some v \<longrightarrow>
               get_balance w other (snd (get_token_transactions w s))
                 = (Inr v, emit ReadClock (snd (get_token_transactions w s))))))
   \<and> (\<not> (cache_fresh w s \<and> token_info_cache s \<noteq> None)
      \<and> rpc_symbol w (Suc (tick s)) = Some sy \<and> rpc_name w (tick s + 2) = Some nm
      \<and> rpc_totalSupply w (tick s + 3) = Some tsupply \<longrightarrow>
      last_cache_update (snd (get_token_info w s)) = clock w (tick s + 4)
      \<and> (clock w (tick s + 5) - clock w (tick s + 4) < cache_lifetime s \<longrightarrow>
            (tx_cache s \<noteq> [] \<longrightarrow>
               get_token_transactions w (snd (get_token_info w s))
                 = (tx_cache s, emit ReadClock (snd (get_token_info w s))))
          \<and> (to_checksum_address w other = Some b \<and> balance_cache s b = Some v \<longrightarrow>
               get_balance w other (snd (get_token_info w s))
                 = (Inr v, emit ReadClock (snd (get_token_info w s))))))"
proof (intro conjI)
  show "to_checksum_address w address = Some a
      \<and> \<not> (cache_fresh w s \<and> balance_cache s a \<noteq> None)
      \<and> rpc_balanceOf w (Suc (tick s)) a = Some raw \<longrightarrow>
      last_cache_update (snd (get_balance w address s)) = clock w (tick s + 2)
      \<and> (clock w (tick s + 3) - clock w (tick s + 2) < cache_lifetime s \<longrightarrow>
            (tx_cache s \<noteq> [] \<longrightarrow>
               get_token_transactions w (snd (get_balance w address s))
                 = (tx_cache s, emit ReadClock (snd (get_balance w address s))))
          \<and> (token_info_cache s \<noteq> None \<longrightarrow>
               get_token_info w (snd (get_balance w address s))
                 = (token_info_cache s, emit ReadClock (snd (get_balance w address s))))
          \<and> (to_checksum_address w other = Some b \<and> b \<noteq> a \<and> balance_cache s b = Some v \<longrightarrow>
               get_balance w other (snd (get_balance w address s))
                 = (Inr v, emit ReadClock (snd (get_balance w address s)))))"
  proof (intro impI)
    assume h: "to_checksum_address w address = Some a
      \<and> \<not> (cache_fresh w s \<and> balance_cache s a \<noteq> None)
      \<and> rpc_balanceOf w (Suc (tick s)) a = Some raw"
    define s' where "s' = snd (get_balance w address s)"
    have eq: "s' = s\<lparr>balance_cache := (balance_cache s)(a \<mapsto> round_double w (real (unat raw) / 10 ^ decimals s)),
        last_cache_update := clock w (tick s + 2),
        events := ReadClock # CallBalanceOf a # ReadClock # events s\<rparr>"
      using h get_balance_miss_ok [of w address a s raw] by (simp add: s'_def)
    have fr: "clock w (tick s + 3) - clock w (tick s + 2) < cache_lifetime s \<Longrightarrow> cache_fresh w s'"
      by (simp add: eq cache_fresh_def tick_def eval_nat_numeral)
    have keep: "tx_cache s' = tx_cache s" "token_info_cache s' = token_info_cache s"
      "b \<noteq> a \<Longrightarrow> balance_cache s' b = balance_cache s b"
      by (simp_all add: eq)
    have "last_cache_update s' = clock w (tick s + 2)" by (simp add: eq)
    then show "last_cache_update (snd (get_balance w address s)) = clock w (tick s + 2)
      \<and> (clock w (tick s + 3) - clock w (tick s + 2) < cache_lifetime s \<longrightarrow>
            (tx_cache s \<noteq> [] \<longrightarrow>
               get_token_transactions w (snd (get_balance w address s))
                 = (tx_cache s, emit ReadClock (snd (get_balance w address s))))
          \<and> (token_info_cache s \<noteq> None \<longrightarrow>
               get_token_info w (snd (get_balance w address s))
                 = (token_info_cache s, emit ReadClock (snd (get_balance w address s))))
          \<and> (to_checksum_address w other = Some b \<and> b \<noteq> a \<and> balance_cache s b = Some v \<longrightarrow>
               get_balance w other (snd (get_balance w address s))
                 = (Inr v, emit ReadClock (snd (get_balance w address s)))))"
      unfolding s'_def [symmetric]
      using served_if_fresh [of w s' other b v] fr keep by auto
  qed
next
  show "\<not> (cache_fresh w s \<and> tx_cache s \<noteq> [])
      \<and> http_tokentx w (Suc (tick s)) = JsonData (Some ''1'') (Some txs) \<longrightarrow>
      last_cache_update (snd (get_token_transactions w s)) = clock w (tick s + 2)
      \<and> (clock w (tick s + 3) - clock w (tick s + 2) < cache_lifetime s \<longrightarrow>
            (token_info_cache s \<noteq> None \<longrightarrow>
               get_token_info w (snd (get_token_transactions w s))
                 = (token_info_cache s, emit ReadClock (snd (get_token_transactions w s))))
          \<and> (to_checksum_address w other = Some b \<and> balance_cache s b = Some v \<longrightarrow>
               get_balance w other (snd (get_token_transactions w s))
                 = (Inr v, emit ReadClock (snd (get_token_transactions w s)))))"
  proof (intro impI)
    assume h: "\<not> (cache_fresh w s \<and> tx_cache s \<noteq> [])
      \<and> http_tokentx w (Suc (tick s)) = JsonData (Some ''1'') (Some txs)"
    define s' where "s' = snd (get_token_transactions w s)"
    have eq: "s' = s\<lparr>tx_cache := txs, last_cache_update := clock w (tick s + 2),
             events := ReadClock # CallTokenTx # ReadClock # events s\<rparr>"
      using h get_token_transactions_miss_ok [of w s txs] by (simp add: s'_def)
    have fr: "clock w (tick s + 3) - clock w (tick s + 2) < cache_lifetime s \<Longrightarrow> cache_fresh w s'"
      by (simp add: eq cache_fresh_def tick_def eval_nat_numeral)
    have keep: "token_info_cache s' = token_info_cache s" "balance_cache s' b = balance_cache s b"
      by (simp_all add: eq)
    have "last_cache_update s' = clock w (tick s + 2)" by (simp add: eq)
    then show "last_cache_update (snd (get_token_transactions w s)) = clock w (tick s + 2)
      \<and> (clock w (tick s + 3) - clock w (tick s + 2) < cache_lifetime s \<longrightarrow>
            (token_info_cache s \<noteq> None \<longrightarrow>
               get_token_info w (snd (get_token_transactions w s))
                 = (token_info_cache s, emit ReadClock (snd (get_token_transactions w s))))
          \<and> (to_checksum_address w other = Some b \<and> balance_cache s b = Some v \<longrightarrow>
               get_balance w other (snd (get_token_transactions w s))
                 = (Inr v, emit ReadClock (snd (get_token_transactions w s)))))"
      unfolding s'_def [symmetric]
      using served_if_fresh [of w s' other b v] fr keep by auto
  qed
next
  show "\<not> (cache_fresh w s \<and> token_info_cache s \<noteq> None)
      \<and> rpc_symbol w (Suc (tick s)) = Some sy \<and> rpc_name w (tick s + 2) = Some nm
      \<and> rpc_totalSupply w (tick s + 3) = Some tsupply \<longrightarrow>
      last_cache_update (snd (get_token_info w s)) = clock w (tick s + 4)
      \<and> (clock w (tick s + 5) - clock w (tick s + 4) < cache_lifetime s \<longrightarrow>
            (tx_cache s \<noteq> [] \<longrightarrow>
               get_token_transactions w (snd (get_token_info w s))
                 = (tx_cache s, emit ReadClock (snd (get_token_info w s))))
          \<and> (to_checksum_address w other = Some b \<and> balance_cache s b = Some v \<longrightarrow>
               get_balance w other (snd (get_token_info w s))
                 = (Inr v, emit ReadClock (snd (get_token_info w s)))))"
  proof (intro impI)
    assume h: "\<not> (cache_fresh w s \<and> token_info_cache s \<noteq> None)
      \<and> rpc_symbol w (Suc (tick s)) = Some sy \<and> rpc_name w (tick s + 2) = Some nm
      \<and> rpc_totalSupply w (tick s + 3) = Some tsupply"
    define s' where "s' = snd (get_token_info w s)"
    have eq: "s' = s\<lparr>token_info_cache :=
          Some \<lparr>info_symbol = sy, info_name = nm, info_totalSupply = round_double w (real (unat tsupply) / 10 ^ decimals s)\<rparr>,
        last_cache_update := clock w (tick s + 4),
        events := ReadClock # CallTotalSupply # CallName # CallSymbol # ReadClock # events s\<rparr>"
      using h get_token_info_miss_ok [of w s sy nm tsupply] by (simp add: s'_def)
    have fr: "clock w (tick s + 5) - clock w (tick s + 4) < cache_lifetime s \<Longrightarrow> cache_fresh w s'"
      by (simp add: eq cache_fresh_def tick_def eval_nat_numeral)
    have keep: "tx_cache s' = tx_cache s" "balance_cache s' b = balance_cache s b"
      by (simp_all add: eq)
    have "last_cache_update s' = clock w (tick s + 4)" by (simp add: eq)
    then show "last_cache_update (snd (get_token_info w s)) = clock w (tick s + 4)
      \<and> (clock w (tick s + 5) - clock w (tick s + 4) < cache_lifetime s \<longrightarrow>
            (tx_cache s \<noteq> [] \<longrightarrow>
               get_token_transactions w (snd (get_token_info w s))
                 = (tx_cache s, emit ReadClock (snd (get_token_info w s))))
          \<and> (to_checksum_address w other = Some b \<and> balance_cache s b = Some v \<longrightarrow>
               get_balance w other (snd (get_token_info w s))
                 = (Inr v, emit ReadClock (snd (get_token_info w s)))))"
      unfolding s'_def [symmetric]
      using served_if_fresh [of w s' other b v] fr keep by auto
  qed
qed

text \<open>The runs in the late world.\<close>

lemma late_runs:
  "tx_cache late_after_log = demo_log
   \<and> last_cache_update late_after_log = 1003
   \<and> \<not> cache_fresh late_world late_after_log
   \<and> rpc_balanceOf late_world (Suc (tick late_after_log)) ''0xCCC'' = Some 1000000
   \<and> last_cache_update (snd (get_balance late_world ''0xCCC'' late_after_log)) = 5006
   \<and> get_token_transactions late_world (snd (get_balance late_world ''0xCCC'' late_after_log))
       = (demo_log, emit ReadClock (snd (get_balance late_world ''0xCCC'' late_after_log)))
   \<and> balance_cache late_after_balance ''0xBBB'' = Some 5
   \<and> last_cache_update late_after_balance = 1003
   \<and> last_cache_update (snd (get_token_transactions late_world late_after_balance)) = 5006
   \<and> get_balance late_world ''0xBBB'' (snd (get_token_transactions late_world late_after_balance))
       = (Inr 5, emit ReadClock (snd (get_token_transactions late_world late_after_balance)))
   \<and> last_cache_update (snd (get_token_info late_world late_after_log)) = 5008
   \<and> get_token_transactions late_world (snd (get_token_info late_world late_after_log))
       = (demo_log, emit ReadClock (snd (get_token_info late_world late_after_log)))"
  by (simp add: run_defs demo_defs late_world_def late_after_log_def late_after_balance_def)

theorem successful_fetch_refreshes_every_category_witness:
  "tx_cache late_after_log = demo_log
   \<and> last_cache_update late_after_log = 1003
   \<and> \<not> cache_fresh late_world late_after_log
   \<and> rpc_balanceOf late_world (Suc (tick late_after_log)) ''0xCCC'' = Some 1000000
   \<and> last_cache_update (snd (get_balance late_world ''0xCCC'' late_after_log)) = 5006
   \<and> get_token_transactions late_world (snd (get_balance late_world ''0xCCC'' late_after_log))
       = (demo_log, emit ReadClock (snd (get_balance late_world ''0xCCC'' late_after_log)))
   \<and> balance_cache late_after_balance ''0xBBB'' = Some 5
   \<and> last_cache_update late_after_balance = 1003
   \<and> last_cache_update (snd (get_token_transactions late_world late_after_balance)) = 5006
   \<and> get_balance late_world ''0xBBB'' (snd (get_token_transactions late_world late_after_balance))
       = (Inr 5, emit ReadClock (snd (get_token_transactions late_world late_after_balance)))
   \<and> last_cache_update (snd (get_token_info late_world late_after_log)) = 5008
   \<and> get_token_transactions late_world (snd (get_token_info late_world late_after_log))
       = (demo_log, emit ReadClock (snd (get_token_info late_world late_after_log)))"
  using successful_fetch_refreshes_every_category
      [where w = late_world and s = late_after_log and address = "''0xCCC''" and a = "''0xCCC''"
         and raw = 1000000 and sy = "''TKN''" and nm = "''Token''" and tsupply = 6000000]
    successful_fetch_refreshes_every_category
      [where w = late_world and s = late_after_balance and txs = demo_log
         and other = "''0xBBB''" and b = "''0xBBB''" and v = 5]
  by - (rule late_runs)

section \<open>When a get answers from the cache\<close>

lemma get_balance_miss_calls:
  "to_checksum_address w address = Some a \<Longrightarrow>
   \<not> (cache_fresh w s \<and> balance_cache s a \<noteq> None) \<Longrightarrow>
   CallBalanceOf a \<in> set (new_events s (snd (get_balance w address s)))"
  by (auto simp add: get_balance_def is_cache_valid_eq io_defs new_events_def
      update_cache_timestamp_def Let_def split: option.splits sum.splits)

lemma get_token_info_miss_calls:
  "\<not> (cache_fresh w s \<and> token_info_cache s \<noteq> None) \<Longrightarrow>
   CallSymbol \<in> set (new_events s (snd (get_token_info w s)))"
  by (auto simp add: get_token_info_def is_cache_valid_eq io_defs new_events_def
      update_cache_timestamp_def Let_def split: option.splits sum.splits)

text \<open>
  C1, as the specification states it, fails: freshness is not kept per entry. In the
  late world the balance of \<open>0xBBB\<close> is stored at time 1003; the balance of another
  address is fetched at time 5006; at time 5007 the entry of \<open>0xBBB\<close>, refreshed 4004
  seconds earlier, is still returned from the cache and the provider, which would now
  answer 7, is not asked.
\<close>

theorem per_entry_freshness_counterexample:
  "balance_cache demo_tracker ''0xBBB'' = None
   \<and> balance_cache late_after_balance ''0xBBB'' = Some 5
   \<and> last_cache_update late_after_balance = 1003
   \<and> clock late_world (tick late_after_other) = 5007
   \<and> \<not> spec_entry_fresh (clock late_world (tick late_after_other))
          (last_cache_update late_after_balance) (cache_lifetime late_after_other)
   \<and> get_balance late_world ''0xBBB'' late_after_other = (Inr 5, emit ReadClock late_after_other)
   \<and> rpc_balanceOf late_world (Suc (tick late_after_other)) ''0xBBB'' = Some 7000000"
  by (simp add: run_defs demo_defs late_world_def late_after_balance_def
      late_after_other_def spec_entry_fresh_def)

text \<open>
  C1, amended. In each category a get answers from the cache exactly when the category
  holds an entry for the key (a stored balance, a non-empty log, stored token facts) and
  the one shared time stamp is less than \<^verbatim>\<open>_cache_lifetime\<close> before the clock read at
  the get; it then returns the stored value and asks no provider. Otherwise it asks the
  provider, and when the provider answers it returns the answer, stores it, and sets the
  shared time stamp to the time read after the fetch.
\<close>

theorem cache_get_by_shared_time_stamp:
  "(to_checksum_address w address = Some a \<longrightarrow>
      (CallBalanceOf a \<notin> set (new_events s (snd (get_balance w address s)))
         \<longleftrightarrow> cache_fresh w s \<and> balance_cache s a \<noteq> None)
      \<and> (cache_fresh w s \<and> balance_cache s a = Some v \<longrightarrow>
            get_balance w address s = (Inr v, emit ReadClock s))
      \<and> (\<not> (cache_fresh w s \<and> balance_cache s a \<noteq> None)
            \<and> rpc_balanceOf w (Suc (tick s)) a = Some raw \<longrightarrow>
            fst (get_balance w address s) = Inr (round_double w (real (unat raw) / 10 ^ decimals s))
            \<and> balance_cache (snd (get_balance w address s)) a = Some (round_double w (real (unat raw) / 10 ^ decimals s))
            \<and> last_cache_update (snd (get_balance w address s)) = clock w (tick s + 2)))
   \<and> (CallTokenTx \<notin> set (new_events s (snd (get_token_transactions w s)))
         \<longleftrightarrow> cache_fresh w s \<and> tx_cache s \<noteq> [])
   \<and> (cache_fresh w s \<and> tx_cache s \<noteq> [] \<longrightarrow>
         get_token_transactions w s = (tx_cache s, emit ReadClock s))
   \<and> (\<not> (cache_fresh w s \<and> tx_cache s \<noteq> [])
         \<and> http_tokentx w (Suc (tick s)) = JsonData (Some ''1'') (Some txs) \<longrightarrow>
         fst (get_token_transactions w s) = txs
         \<and> tx_cache (snd (get_token_transactions w s)) = txs
         \<and> last_cache_update (snd (get_token_transactions w s)) = clock w (tick s + 2))
   \<and> (CallSymbol \<notin> set (new_events s (snd (get_token_info w s)))
         \<longleftrightarrow> cache_fresh w s \<and> token_info_cache s \<noteq> None)
   \<and> (cache_fresh w s \<and> token_info_cache s \<noteq> None \<longrightarrow>
         get_token_info w s = (token_info_cache s, emit ReadClock s))
   \<and> (\<not> (cache_fresh w s \<and> token_info_cache s \<noteq> None)
         \<and> rpc_symbol w (Suc (tick s)) = Some sy \<and> rpc_name w (tick s + 2) = Some nm
         \<and> rpc_totalSupply w (tick s + 3) = Some tsupply \<longrightarrow>
         fst (get_token_info w s)
           = Some \<lparr>info_symbol = sy, info_name = nm,
                   info_totalSupply = round_double w (real (unat tsupply) / 10 ^ decimals s)\<rparr>
         \<and> token_info_cache (snd (get_token_info w s)) = fst (get_token_info w s)
         \<and> last_cache_update (snd (get_token_info w s)) = clock w (tick s + 4))"
proof (intro conjI)
  show "to_checksum_address w address = Some a \<longrightarrow>
      (CallBalanceOf a \<notin> set (new_events s (snd (get_balance w address s)))
         \<longleftrightarrow> cache_fresh w s \<and> balance_cache s a \<noteq> None)
      \<and> (cache_fresh w s \<and> balance_cache s a = Some v \<longrightarrow>
            get_balance w address s = (Inr v, emit ReadClock s))
      \<and> (\<not> (cache_fresh w s \<and> balance_cache s a \<noteq> None)
            \<and> rpc_balanceOf w (Suc (tick s)) a = Some raw \<longrightarrow>
            fst (get_balance w address s) = Inr (round_double w (real (unat raw) / 10 ^ decimals s))
            \<and> balance_cache (snd (get_balance w address s)) a = Some (round_double w (real (unat raw) / 10 ^ decimals s))
            \<and> last_cache_update (snd (get_balance w address s)) = clock w (tick s + 2))"
  proof (intro impI conjI)
    assume a: "to_checksum_address w address = Some a"
    show "CallBalanceOf a \<notin> set (new_events s (snd (get_balance w address s)))
         \<longleftrightarrow> cache_fresh w s \<and> balance_cache s a \<noteq> None"
    proof (cases "cache_fresh w s \<and> balance_cache s a \<noteq> None")
      case True
      then obtain u where "balance_cache s a = Some u" by auto
      with True a show ?thesis by (simp add: get_balance_hit)
    next
      case False
      with a show ?thesis using get_balance_miss_calls [of w address a s] by blast
    qed
  next
    assume "to_checksum_address w address = Some a"
      and "cache_fresh w s \<and> balance_cache s a = Some v"
    then show "get_balance w address s = (Inr v, emit ReadClock s)"
      by (simp add: get_balance_hit)
  next
    assume a: "to_checksum_address w address = Some a"
      and m: "\<not> (cache_fresh w s \<and> balance_cache s a \<noteq> None)
              \<and> rpc_balanceOf w (Suc (tick s)) a = Some raw"
    then have eq: "get_balance w address s =
     (Inr (round_double w (real (unat raw) / 10 ^ decimals s)),
      s\<lparr>balance_cache := (balance_cache s)(a \<mapsto> round_double w (real (unat raw) / 10 ^ decimals s)),
        last_cache_update := clock w (tick s + 2),
        events := ReadClock # CallBalanceOf a # ReadClock # events s\<rparr>)"
      using get_balance_miss_ok [of w address a s raw] by blast
    show "fst (get_balance w address s) = Inr (round_double w (real (unat raw) / 10 ^ decimals s))"
      and "balance_cache (snd (get_balance w address s)) a = Some (round_double w (real (unat raw) / 10 ^ decimals s))"
      and "last_cache_update (snd (get_balance w address s)) = clock w (tick s + 2)"
      by (simp_all add: eq)
  qed
next
  show "CallTokenTx \<notin> set (new_events s (snd (get_token_transactions w s)))
         \<longleftrightarrow> cache_fresh w s \<and> tx_cache s \<noteq> []"
  proof (cases "cache_fresh w s \<and> tx_cache s \<noteq> []")
    case True
    then show ?thesis by (simp add: get_token_transactions_hit)
  next
    case False
    then show ?thesis using get_token_transactions_miss_calls [of w s] by blast
  qed
next
  show "cache_fresh w s \<and> tx_cache s \<noteq> [] \<longrightarrow>
         get_token_transactions w s = (tx_cache s, emit ReadClock s)"
    by (simp add: get_token_transactions_hit)
next
  show "\<not> (cache_fresh w s \<and> tx_cache s \<noteq> [])
         \<and> http_tokentx w (Suc (tick s)) = JsonData (Some ''1'') (Some txs) \<longrightarrow>
         fst (get_token_transactions w s) = txs
         \<and> tx_cache (snd (get_token_transactions w s)) = txs
         \<and> last_cache_update (snd (get_token_transactions w s)) = clock w (tick s + 2)"
  proof (intro impI)
    assume "\<not> (cache_fresh w s \<and> tx_cache s \<noteq> [])
         \<and> http_tokentx w (Suc (tick s)) = JsonData (Some ''1'') (Some txs)"
    then have "get_token_transactions w s =
     (txs, s\<lparr>tx_cache := txs, last_cache_update := clock w (tick s + 2),
             events := ReadClock # CallTokenTx # ReadClock # events s\<rparr>)"
      using get_token_transactions_miss_ok [of w s txs] by blast
    then show "fst (get_token_transactions w s) = txs
         \<and> tx_cache (snd (get_token_transactions w s)) = txs
         \<and> last_cache_update (snd (get_token_transactions w s)) = clock w (tick s + 2)"
      by simp
  qed
next
  show "CallSymbol \<notin> set (new_events s (snd (get_token_info w s)))
         \<longleftrightarrow> cache_fresh w s \<and> token_info_cache s \<noteq> None"
  proof (cases "cache_fresh w s \<and> token_info_cache s \<noteq> None")
    case True
    then obtain i where "token_info_cache s = Some i" by auto
    with True show ?thesis by (simp add: get_token_info_hit)
  next
    case False
    then show ?thesis using get_token_info_miss_calls [of w s] by blast
  qed
next
  show "cache_fresh w s \<and> token_info_cache s \<noteq> None \<longrightarrow>
         get_token_info w s = (token_info_cache s, emit ReadClock s)"
    by (auto simp add: get_token_info_hit)
next
  show "\<not> (cache_fresh w s \<and> token_info_cache s \<noteq> None)
         \<and> rpc_symbol w (Suc (tick s)) = Some sy \<and> rpc_name w (tick s + 2) = Some nm
         \<and> rpc_totalSupply w (tick s + 3) = Some tsupply \<longrightarrow>
         fst (get_token_info w s)
           = Some \<lparr>info_symbol = sy, info_name = nm,
                   info_totalSupply = round_double w (real (unat tsupply) / 10 ^ decimals s)\<rparr>
         \<and> token_info_cache (snd (get_token_info w s)) = fst (get_token_info w s)
         \<and> last_cache_update (snd (get_token_info w s)) = clock w (tick s + 4)"
  proof (intro impI)
    assume "\<not> (cache_fresh w s \<and> token_info_cache s \<noteq> None)
         \<and> rpc_symbol w (Suc (tick s)) = Some sy \<and> rpc_name w (tick s + 2) = Some nm
         \<and> rpc_totalSupply w (tick s + 3) = Some tsupply"
    then have "get_token_info w s =
     (Some \<lparr>info_symbol = sy, info_name = nm, info_totalSupply = round_double w (real (unat tsupply) / 10 ^ decimals s)\<rparr>,
      s\<lparr>token_info_cache :=
          Some \<lparr>info_symbol = sy, info_name = nm, info_totalSupply = round_double w (real (unat tsupply) / 10 ^ decimals s)\<rparr>,
        last_cache_update := clock w (tick s + 4),
        events := ReadClock # CallTotalSupply # CallName # CallSymbol # ReadClock # events s\<rparr>)"
      using get_token_info_miss_ok [of w s sy nm tsupply] by blast
    then show "fst (get_token_info w s)
           = Some \<lparr>info_symbol = sy, info_name = nm,
                   info_totalSupply = round_double w (real (unat tsupply) / 10 ^ decimals s)\<rparr>
         \<and> token_info_cache (snd (get_token_info w s)) = fst (get_token_info w s)
         \<and> last_cache_update (snd (get_token_info w s)) = clock w (tick s + 4)"
      by simp
  qed
qed

text \<open>The runs of the scenario, one miss and one hit in each category.\<close>

lemma demo_runs:
  "to_checksum_address demo_world ''0xBBB'' = Some ''0xBBB''
   \<and> \<not> (cache_fresh demo_world demo_tracker \<and> balance_cache demo_tracker ''0xBBB'' \<noteq> None)
   \<and> rpc_balanceOf demo_world (Suc (tick demo_tracker)) ''0xBBB'' = Some 5000000
   \<and> fst (get_balance demo_world ''0xBBB'' demo_tracker) = Inr 5
   \<and> balance_cache demo_after_balance ''0xBBB'' = Some 5
   \<and> last_cache_update demo_after_balance = 1003
   \<and> cache_fresh demo_world demo_after_balance
   \<and> get_balance demo_world ''0xBBB'' demo_after_balance = (Inr 5, emit ReadClock demo_after_balance)
   \<and> fst (get_token_transactions demo_world demo_tracker) = demo_log
   \<and> tx_cache demo_after_log = demo_log
   \<and> last_cache_update demo_after_log = 1003
   \<and> cache_fresh demo_world demo_after_log
   \<and> get_token_transactions demo_world demo_after_log = (demo_log, emit ReadClock demo_after_log)
   \<and> fst (get_token_info demo_world demo_tracker)
       = Some \<lparr>info_symbol = ''TKN'', info_name = ''Token'', info_totalSupply = 6\<rparr>
   \<and> last_cache_update demo_after_info = 1005
   \<and> cache_fresh demo_world demo_after_info
   \<and> get_token_info demo_world demo_after_info
       = (Some \<lparr>info_symbol = ''TKN'', info_name = ''Token'', info_totalSupply = 6\<rparr>,
          emit ReadClock demo_after_info)"
  by (simp add: run_defs demo_defs demo_after_balance_def demo_after_log_def
      demo_after_info_def)

theorem cache_get_by_shared_time_stamp_witness:
  "to_checksum_address demo_world ''0xBBB'' = Some ''0xBBB''
   \<and> \<not> (cache_fresh demo_world demo_tracker \<and> balance_cache demo_tracker ''0xBBB'' \<noteq> None)
   \<and> rpc_balanceOf demo_world (Suc (tick demo_tracker)) ''0xBBB'' = Some 5000000
   \<and> fst (get_balance demo_world ''0xBBB'' demo_tracker) = Inr 5
   \<and> balance_cache demo_after_balance ''0xBBB'' = Some 5
   \<and> last_cache_update demo_after_balance = 1003
   \<and> cache_fresh demo_world demo_after_balance
   \<and> get_balance demo_world ''0xBBB'' demo_after_balance = (Inr 5, emit ReadClock demo_after_balance)
   \<and> fst (get_token_transactions demo_world demo_tracker) = demo_log
   \<and> tx_cache demo_after_log = demo_log
   \<and> last_cache_update demo_after_log = 1003
   \<and> cache_fresh demo_world demo_after_log
   \<and> get_token_transactions demo_world demo_after_log = (demo_log, emit ReadClock demo_after_log)
   \<and> fst (get_token_info demo_world demo_tracker)
       = Some \<lparr>info_symbol = ''TKN'', info_name = ''Token'', info_totalSupply = 6\<rparr>
   \<and> last_cache_update demo_after_info = 1005
   \<and> cache_fresh demo_world demo_after_info
   \<and> get_token_info demo_world demo_after_info
       = (Some \<lparr>info_symbol = ''TKN'', info_name = ''Token'', info_totalSupply = 6\<rparr>,
          emit ReadClock demo_after_info)"
  using cache_get_by_shared_time_stamp
      [where w = demo_world and s = demo_tracker and address = "''0xBBB''" and a = "''0xBBB''"
         and raw = 5000000 and txs = demo_log and sy = "''TKN''" and nm = "''Token''"
         and tsupply = 6000000]
    cache_get_by_shared_time_stamp
      [where w = demo_world and s = demo_after_balance and address = "''0xBBB''"
         and a = "''0xBBB''" and v = 5]
    cache_get_by_shared_time_stamp [where w = demo_world and s = demo_after_log]
    cache_get_by_shared_time_stamp [where w = demo_world and s = demo_after_info]
  by - (rule demo_runs)

section \<open>The ranking of holders\<close>



lemma set_sorted_desc [simp]: "set (sorted_desc key xs) = set xs"
  by (simp add: sorted_desc_def)















section \<open>The history of an address\<close>

lemma make_entry_eq:
  "make_entry w s a t
     = (if record_converts w s t then Some (expected_entry w s a t) else None)"
  by (simp add: make_entry_def record_converts_def expected_entry_def format_balance_def
      Let_def split: option.splits)

lemma history_loop_char:
  "int (length acc) < limit \<Longrightarrow>
   history_loop w s a limit txs acc =
     (if \<forall>t \<in> set (first_matches w a (nat limit - length acc) txs). record_converts w s t
      then Some (acc @ map (expected_entry w s a)
                         (first_matches w a (nat limit - length acc) txs))
      else None)"
proof (induction txs arbitrary: acc)
  case Nil
  then show ?case by (simp add: first_matches_def)
next
  case (Cons t rest)
  from Cons.prems obtain k where k: "nat limit - length acc = Suc k"
    by (cases "nat limit - length acc") auto
  have cond: "(str_lower w (tx_to t) = str_lower w a \<or> str_lower w (tx_from t) = str_lower w a)
                \<longleftrightarrow> matches_address w a t"
    by (auto simp add: matches_address_def)
  show ?case
  proof (cases "matches_address w a t")
    case False
    then have "history_loop w s a limit (t # rest) acc = history_loop w s a limit rest acc"
      using Cons.prems cond by simp
    moreover have "first_matches w a (nat limit - length acc) (t # rest)
                     = first_matches w a (nat limit - length acc) rest"
      using False by (simp add: first_matches_def)
    ultimately show ?thesis using Cons.IH [OF Cons.prems] by simp
  next
    case True
    then have fm: "first_matches w a (nat limit - length acc) (t # rest)
                     = t # first_matches w a k rest"
      by (simp add: first_matches_def k)
    show ?thesis
    proof (cases "record_converts w s t")
      case False
      then have "history_loop w s a limit (t # rest) acc = None"
        using True cond by (simp add: make_entry_eq)
      then show ?thesis using False by (simp add: fm)
    next
      case conv: True
      define e where "e = expected_entry w s a t"
      have me: "make_entry w s a t = Some e" using conv by (simp add: make_entry_eq e_def)
      show ?thesis
      proof (cases "int (length (acc @ [e])) \<ge> limit")
        case full: True
        then have "history_loop w s a limit (t # rest) acc = Some (acc @ [e])"
          using True cond me by simp
        moreover from full k have "k = 0" by simp
        then have "first_matches w a (nat limit - length acc) (t # rest) = [t]"
          using fm by (simp add: first_matches_def)
        ultimately show ?thesis using conv by (simp add: e_def)
      next
        case more: False
        then have step: "history_loop w s a limit (t # rest) acc
                           = history_loop w s a limit rest (acc @ [e])"
          using True cond me by simp
        have k': "nat limit - length (acc @ [e]) = k" using k by simp
        have "int (length (acc @ [e])) < limit" using more by simp
        from Cons.IH [OF this]
        have ih: "history_loop w s a limit rest (acc @ [e]) =
          (if \<forall>t \<in> set (first_matches w a k rest). record_converts w s t
           then Some ((acc @ [e]) @ map (expected_entry w s a) (first_matches w a k rest))
           else None)"
          unfolding k' .
        show ?thesis unfolding step fm ih using conv by (simp add: e_def)
      qed
    qed
  qed
qed

text \<open>
  C6, as the specification states it, fails when a record among the first matches does
  not convert: here the newest record matches the address, its time stamp is not a
  numeral, and the function returns the empty list instead of the record.
\<close>

theorem address_history_unconvertible_record_counterexample:
  "to_checksum_address bad_stamp_world ''0xbbb'' = Some ''0xbbb''
   \<and> length (first_matches bad_stamp_world ''0xbbb'' 1
        (fst (get_token_transactions bad_stamp_world demo_tracker))) = 1
   \<and> fst (get_address_history bad_stamp_world ''0xbbb'' 1 demo_tracker) = []"
  by (simp add: get_address_history_def make_entry_def first_matches_def matches_address_def
      run_defs lib_defs demo_defs bad_stamp_world_def)

text \<open>
  C6, amended. For a positive limit and a string that normalises to the address \<open>a\<close>,
  take the first \<open>limit\<close> records of the fetched log whose sender or recipient equals
  \<open>a\<close> up to letter case, in the order of the log, all of them when there are fewer. If
  each of them converts (\<^verbatim>\<open>timeStamp\<close> and \<^verbatim>\<open>value\<close> are numerals, the time can be
  formatted, the amount is within the range of a double), \<^verbatim>\<open>get_address_history\<close>
  returns exactly one entry for each of them, in that order, and nothing else: records
  after the \<open>limit\<close>-th match are not looked at. If one of them does not convert, or the
  string does not normalise, it returns the empty list.
\<close>

theorem address_history_first_limit_matches:
  "0 < limit \<Longrightarrow>
   (to_checksum_address w address = Some a \<longrightarrow>
      ((\<forall>t \<in> set (first_matches w a (nat limit) (fst (get_token_transactions w s))).
           record_converts w (snd (get_token_transactions w s)) t) \<longrightarrow>
         get_address_history w address limit s =
           (map (expected_entry w (snd (get_token_transactions w s)) a)
                (first_matches w a (nat limit) (fst (get_token_transactions w s))),
            snd (get_token_transactions w s)))
      \<and> (\<not> (\<forall>t \<in> set (first_matches w a (nat limit) (fst (get_token_transactions w s))).
             record_converts w (snd (get_token_transactions w s)) t) \<longrightarrow>
         fst (get_address_history w address limit s) = []))
   \<and> (to_checksum_address w address = None \<longrightarrow>
        fst (get_address_history w address limit s) = [])"
proof -
  assume l: "0 < limit"
  obtain txs s1 where t: "get_token_transactions w s = (txs, s1)"
    by (cases "get_token_transactions w s")
  have "int (length ([] :: history_entry list)) < limit" using l by simp
  from history_loop_char [OF this, of w s1 _ txs]
  have loop: "history_loop w s1 b limit txs [] =
     (if \<forall>t \<in> set (first_matches w b (nat limit) txs). record_converts w s1 t
      then Some (map (expected_entry w s1 b) (first_matches w b (nat limit) txs))
      else None)" for b
    by simp
  show ?thesis
    by (auto simp add: get_address_history_def t loop)
qed

text \<open>The histories in the concrete worlds.\<close>

lemma parse_zeros: "parse_digits (replicate n (CHR ''0'')) acc = Some (acc * 10 ^ n)"
  by (induction n arbitrary: acc) (simp_all add: digit_val_def)

lemma history_runs:
  "(0::int) < 2
   \<and> fst (get_token_transactions history_world demo_tracker) = history_log
   \<and> to_checksum_address history_world ''0xbbb'' = Some ''0xbbb''
   \<and> first_matches history_world ''0xbbb'' 2 history_log = [history_log ! 0, history_log ! 2]
   \<and> first_matches history_world ''0xbbb'' 5 history_log
       = [history_log ! 0, history_log ! 2, history_log ! 3]
   \<and> fst (get_address_history history_world ''0xbbb'' 2 demo_tracker)
       = [\<lparr>h_type = ''receive'', h_counterparty = ''0xAAA'', h_amount = 5,
            h_timestamp = ''1970-01-01 00:03:20''\<rparr>,
          \<lparr>h_type = ''send'', h_counterparty = ''0xCCC'', h_amount = 1,
            h_timestamp = ''1970-01-01 00:01:40''\<rparr>]
   \<and> fst (get_address_history history_world ''0xbbb'' 5 demo_tracker)
       = [\<lparr>h_type = ''receive'', h_counterparty = ''0xAAA'', h_amount = 5,
            h_timestamp = ''1970-01-01 00:03:20''\<rparr>,
          \<lparr>h_type = ''send'', h_counterparty = ''0xCCC'', h_amount = 1,
            h_timestamp = ''1970-01-01 00:01:40''\<rparr>,
          \<lparr>h_type = ''receive'', h_counterparty = ''0xAAA'', h_amount = 3,
            h_timestamp = ''1970-01-01 00:00:50''\<rparr>]
   \<and> to_checksum_address history_world [] = None
   \<and> fst (get_address_history history_world [] 2 demo_tracker) = []
   \<and> to_checksum_address overflow_world ''0xbbb'' = Some ''0xbbb''
   \<and> length (first_matches overflow_world ''0xbbb'' 1
        (fst (get_token_transactions overflow_world demo_tracker))) = 1
   \<and> fst (get_address_history overflow_world ''0xbbb'' 1 demo_tracker) = []"
  by (simp add: get_address_history_def make_entry_def first_matches_def matches_address_def
      run_defs lib_defs demo_defs history_world_def history_log_def overflow_world_def
      parse_zeros)

theorem address_history_first_limit_matches_witness:
  "(0::int) < 2
   \<and> fst (get_token_transactions history_world demo_tracker) = history_log
   \<and> to_checksum_address history_world ''0xbbb'' = Some ''0xbbb''
   \<and> first_matches history_world ''0xbbb'' 2 history_log = [history_log ! 0, history_log ! 2]
   \<and> first_matches history_world ''0xbbb'' 5 history_log
       = [history_log ! 0, history_log ! 2, history_log ! 3]
   \<and> fst (get_address_history history_world ''0xbbb'' 2 demo_tracker)
       = [\<lparr>h_type = ''receive'', h_counterparty = ''0xAAA'', h_amount = 5,
            h_timestamp = ''1970-01-01 00:03:20''\<rparr>,
          \<lparr>h_type = ''send'', h_counterparty = ''0xCCC'', h_amount = 1,
            h_timestamp = ''1970-01-01 00:01:40''\<rparr>]
   \<and> fst (get_address_history history_world ''0xbbb'' 5 demo_tracker)
       = [\<lparr>h_type = ''receive'', h_counterparty = ''0xAAA'', h_amount = 5,
            h_timestamp = ''1970-01-01 00:03:20''\<rparr>,
          \<lparr>h_type = ''send'', h_counterparty = ''0xCCC'', h_amount = 1,
            h_timestamp = ''1970-01-01 00:01:40''\<rparr>,
          \<lparr>h_type = ''receive'', h_counterparty = ''0xAAA'', h_amount = 3,
            h_timestamp = ''1970-01-01 00:00:50''\<rparr>]
   \<and> to_checksum_address history_world [] = None
   \<and> fst (get_address_history history_world [] 2 demo_tracker) = []
   \<and> to_checksum_address overflow_world ''0xbbb'' = Some ''0xbbb''
   \<and> length (first_matches overflow_world ''0xbbb'' 1
        (fst (get_token_transactions overflow_world demo_tracker))) = 1
   \<and> fst (get_address_history overflow_world ''0xbbb'' 1 demo_tracker) = []"
  using address_history_first_limit_matches
      [of 2 history_world "''0xbbb''" "''0xbbb''" demo_tracker]
    address_history_first_limit_matches
      [of 5 history_world "''0xbbb''" "''0xbbb''" demo_tracker]
    address_history_first_limit_matches [of 2 history_world "[]" _ demo_tracker]
    address_history_first_limit_matches
      [of 1 overflow_world "''0xbbb''" "''0xbbb''" demo_tracker]
  by - (rule history_runs)

section \<open>Validation of counts and limits in the handlers\<close>

lemma api_get_top_rejects:
  "args_get_int w n_arg 10 \<le> 0 \<Longrightarrow>
   api_get_top w n_arg s = ((ErrorMessage ''Parameter 'n' must be positive'', 400), s)"
  by (simp add: api_get_top_def)

lemma api_get_top_with_transactions_rejects:
  "args_get_int w n_arg 10 \<le> 0 \<Longrightarrow>
   api_get_top_with_transactions w n_arg s
     = ((ErrorMessage ''Parameter 'n' must be positive'', 400), s)"
  by (simp add: api_get_top_with_transactions_def)

lemma api_address_history_never_rejects_limit:
  "address \<noteq> [] \<Longrightarrow>
   snd (fst (api_address_history w (Some address) limit_arg s)) = 200"
  by (simp add: api_address_history_def Let_def split: prod.splits)

text \<open>
  C5 holds for the two ranking handlers, which answer 400 for every \<open>n \<le> 0\<close>, and
  fails for \<^verbatim>\<open>/address_history\<close>, which has no such test: with \<open>limit=0\<close> or
  \<open>limit=-1\<close> it answers 200, and since the loop tests the length only after a record
  has been handled, it even returns the first record when that one matches.
\<close>

theorem address_history_accepts_nonpositive_limit:
  "fst (api_get_top demo_world (Some ''0'') demo_tracker)
     = (ErrorMessage ''Parameter 'n' must be positive'', 400)
   \<and> fst (api_get_top demo_world (Some ''-1'') demo_tracker)
     = (ErrorMessage ''Parameter 'n' must be positive'', 400)
   \<and> fst (api_get_top_with_transactions demo_world (Some ''0'') demo_tracker)
     = (ErrorMessage ''Parameter 'n' must be positive'', 400)
   \<and> fst (api_address_history demo_world (Some ''0xBBB'') (Some ''0'') demo_tracker)
     = (History ''0xBBB''
          [\<lparr>h_type = ''receive'', h_counterparty = ''0xAAA'', h_amount = 5,
            h_timestamp = ''1970-01-01 00:03:20''\<rparr>], 200)
   \<and> fst (api_address_history demo_world (Some ''0xBBB'') (Some ''-1'') demo_tracker)
     = (History ''0xBBB''
          [\<lparr>h_type = ''receive'', h_counterparty = ''0xAAA'', h_amount = 5,
            h_timestamp = ''1970-01-01 00:03:20''\<rparr>], 200)
   \<and> fst (api_address_history demo_world (Some ''0xCCC'') (Some ''0'') demo_tracker)
     = (History ''0xCCC'' [], 200)"
  by (simp add: api_get_top_def api_get_top_with_transactions_def api_address_history_def
      args_get_int_def get_address_history_def make_entry_def
      run_defs lib_defs demo_defs)

section \<open>The last activity of a holder\<close>

text \<open>
  The table of holders only grows, by entries with new addresses that stem from the
  record being handled. Hence an address that is in the table once its most recent
  record has been handled carries the time of that record for good.
\<close>

lemma visit_cases:
  "fst (visit w t address (holders_data, s)) = holders_data
   \<or> (\<exists>balance stamp. address \<notin> set (map fst holders_data) \<and> address \<noteq> ZERO_ADDRESS
         \<and> 0 < balance \<and> stamp_of w t = Some stamp
         \<and> fst (visit w t address (holders_data, s)) = holders_data @ [(address, balance, stamp)])"
  by (auto simp add: visit_def stamp_of_def split: prod.splits sum.splits option.splits)

lemma visit_extends:
  assumes "distinct (map fst (fst st))" and "address = tx_to t \<or> address = tx_from t"
  shows "\<exists>new. fst (visit w t address st) = fst st @ new
           \<and> distinct (map fst (fst st @ new)) \<and> recorded_in w [t] new"
proof -
  obtain holders_data s where st: "st = (holders_data, s)" by (cases st)
  from visit_cases [of w t address holders_data s] show ?thesis
  proof
    assume "fst (visit w t address (holders_data, s)) = holders_data"
    then have "fst (visit w t address st) = fst st @ []
           \<and> distinct (map fst (fst st @ [])) \<and> recorded_in w [t] []"
      using assms st by (simp add: recorded_in_def)
    then show ?thesis by blast
  next
    assume "\<exists>balance stamp. address \<notin> set (map fst holders_data) \<and> address \<noteq> ZERO_ADDRESS
         \<and> 0 < balance \<and> stamp_of w t = Some stamp
         \<and> fst (visit w t address (holders_data, s)) = holders_data @ [(address, balance, stamp)]"
    then obtain balance stamp where h: "address \<notin> set (map fst holders_data)"
      "address \<noteq> ZERO_ADDRESS" "0 < balance" "stamp_of w t = Some stamp"
      "fst (visit w t address (holders_data, s)) = holders_data @ [(address, balance, stamp)]"
      by blast
    have "fst (visit w t address st) = fst st @ [(address, balance, stamp)]
           \<and> distinct (map fst (fst st @ [(address, balance, stamp)]))
           \<and> recorded_in w [t] [(address, balance, stamp)]"
      using assms st h by (auto simp add: recorded_in_def)
    then show ?thesis by blast
  qed
qed

lemma recorded_in_append:
  "recorded_in w xs a \<Longrightarrow> recorded_in w ys b \<Longrightarrow> recorded_in w (xs @ ys) (a @ b)"
  by (auto simp add: recorded_in_def)

lemma activity_loop_extends:
  "distinct (map fst (fst st)) \<Longrightarrow>
   \<exists>new. fst (activity_loop w txs st) = fst st @ new
         \<and> distinct (map fst (fst st @ new)) \<and> recorded_in w txs new"
proof (induction txs arbitrary: st)
  case Nil
  then have "fst (activity_loop w [] st) = fst st @ []
         \<and> distinct (map fst (fst st @ [])) \<and> recorded_in w [] []"
    by (simp add: recorded_in_def)
  then show ?case by blast
next
  case (Cons t rest)
  define st1 where "st1 = visit w t (tx_to t) st"
  define st2 where "st2 = visit w t (tx_from t) st1"
  from visit_extends [OF Cons.prems, of "tx_to t" t w]
  obtain n1 where n1: "fst st1 = fst st @ n1" "distinct (map fst (fst st @ n1))"
    "recorded_in w [t] n1"
    unfolding st1_def by auto
  have d1: "distinct (map fst (fst st1))" using n1 by simp
  from visit_extends [OF d1, of "tx_from t" t w]
  obtain n2 where n2: "fst st2 = fst st1 @ n2" "distinct (map fst (fst st1 @ n2))"
    "recorded_in w [t] n2"
    unfolding st2_def by auto
  have d2: "distinct (map fst (fst st2))" using n2 by simp
  from Cons.IH [OF d2]
  obtain n3 where n3: "fst (activity_loop w rest st2) = fst st2 @ n3"
    "distinct (map fst (fst st2 @ n3))" "recorded_in w rest n3"
    by auto
  have step: "activity_loop w (t # rest) st = activity_loop w rest st2"
    by (simp add: st1_def st2_def)
  have r12: "recorded_in w [t] (n1 @ n2)"
    using recorded_in_append [OF n1(3) n2(3)] by (simp add: recorded_in_def)
  have r: "recorded_in w (t # rest) ((n1 @ n2) @ n3)"
    using recorded_in_append [OF r12 n3(3)] by simp
  have "fst (activity_loop w (t # rest) st) = fst st @ ((n1 @ n2) @ n3)"
    using step n1(1) n2(1) n3(1) by simp
  moreover have "distinct (map fst (fst st @ ((n1 @ n2) @ n3)))"
    using n3(2) n2(1) n1(1) by simp
  ultimately show ?case using r by blast
qed

lemma activity_loop_append:
  "activity_loop w (xs @ ys) st = activity_loop w ys (activity_loop w xs st)"
  by (induction xs arbitrary: st) simp_all

lemma most_recent_when_recorded_at_first_encounter:
  assumes untouched: "\<forall>u \<in> set pre. tx_to u \<noteq> a \<and> tx_from u \<noteq> a"
    and at_t: "a \<in> set (map fst (fst (activity_loop w (pre @ [t]) ([], s))))"
    and entry: "(a, b, stamp) \<in> set (fst (activity_loop w (pre @ t # post) ([], s)))"
  shows "stamp_of w t = Some stamp \<and> (tx_to t = a \<or> tx_from t = a)"
proof -
  define st1 where "st1 = activity_loop w pre ([], s)"
  define st2 where "st2 = activity_loop w [t] st1"
  define st3 where "st3 = activity_loop w post st2"
  have e2: "activity_loop w (pre @ [t]) ([], s) = st2"
    by (simp add: activity_loop_append st1_def st2_def)
  have e3: "activity_loop w (pre @ t # post) ([], s) = st3"
    using activity_loop_append [of w "pre @ [t]" post "([], s)"]
    by (simp add: e2 st3_def)
  from activity_loop_extends [of "([], s)" w pre]
  obtain n1 where n1: "fst st1 = n1" "distinct (map fst n1)" "recorded_in w pre n1"
    unfolding st1_def by auto
  have d1: "distinct (map fst (fst st1))" using n1 by simp
  from activity_loop_extends [OF d1, of w "[t]"]
  obtain n2 where n2: "fst st2 = fst st1 @ n2" "distinct (map fst (fst st1 @ n2))"
    "recorded_in w [t] n2"
    unfolding st2_def by auto
  have d2: "distinct (map fst (fst st2))" using n2 by simp
  from activity_loop_extends [OF d2, of w post]
  obtain n3 where n3: "fst st3 = fst st2 @ n3" "distinct (map fst (fst st2 @ n3))"
    unfolding st3_def by auto
  have "a \<notin> set (map fst n1)"
    using n1(3) untouched by (auto simp add: recorded_in_def)
  moreover have "a \<in> set (map fst (fst st2))" using at_t e2 by simp
  ultimately have "a \<in> set (map fst n2)" using n2(1) n1(1) by auto
  then obtain x where x: "x \<in> set n2" "fst x = a" by auto
  then have xs: "stamp_of w t = Some (snd (snd x))" "tx_to t = a \<or> tx_from t = a"
    using n2(3) by (auto simp add: recorded_in_def)
  have x3: "x \<in> set (fst st3)" using x n2(1) n3(1) by simp
  have y3: "(a, b, stamp) \<in> set (fst st3)" using entry e3 by simp
  have "distinct (map fst (fst st3))" using n3 by simp
  then have "inj_on fst (set (fst st3))"
    by (rule distinct_map [THEN iffD1, THEN conjunct2])
  moreover have "fst x = fst (a, b, stamp)" using x(2) by simp
  ultimately have "x = (a, b, stamp)"
    using x3 y3 by (rule inj_onD)
  then show ?thesis using xs by simp
qed

text \<open>
  C3 fails when the balance of an address cannot be resolved at its first encounter.
  In the flaky world the newest record (time 200) has \<open>0xBBB\<close> as recipient, but the
  \<^verbatim>\<open>balanceOf\<close> call made there raises, so nothing is recorded and the address is not
  remembered; at the older record (time 100), where \<open>0xBBB\<close> is the sender, the call
  succeeds and the address is recorded with the time of that older record.
\<close>

theorem last_activity_taken_from_older_record:
  "tx_to (hd demo_log) = ''0xBBB''
   \<and> map_option (strftime flaky_world) (py_int flaky_world (tx_timeStamp (hd demo_log)))
       = Some (Some ''1970-01-01 00:03:20'')
   \<and> fst (get_token_transactions flaky_world demo_tracker) = demo_log
   \<and> fst (get_top_with_transactions flaky_world 2 demo_tracker)
       = [(''0xBBB'', 5, ''1970-01-01 00:01:40''), (''0xCCC'', 1, ''1970-01-01 00:01:40'')]
   \<and> fst (get_top_with_transactions demo_world 2 demo_tracker)
       = [(''0xBBB'', 5, ''1970-01-01 00:03:20''), (''0xCCC'', 1, ''1970-01-01 00:01:40'')]"
  by (simp add: run_defs rank_defs lib_defs flaky_world_def demo_defs)

section \<open>Balances are non-negative and scaled by the precision read at construction\<close>

lemma inv_emit: "e \<noteq> CallDecimals \<Longrightarrow> tracker_inv w d s \<Longrightarrow> tracker_inv w d (emit e s)"
  by (simp add: tracker_inv_def emit_def)

lemma unsigned_real_nonneg: "0 \<le> (unsigned (raw :: 'a::len word) :: real)"
proof -
  have "0 \<le> (of_nat (unat raw) :: real)" by (rule of_nat_0_le_iff)
  then show ?thesis by simp
qed

lemma rounded_quotient_nonneg:
  "rounds_nonneg w \<Longrightarrow> 0 \<le> round_double w (real (unat (raw :: 256 word)) / 10 ^ d)"
  using unsigned_real_nonneg [of raw] by (simp add: rounds_nonneg_def)

lemma inv_get_balance:
  assumes "tracker_inv w d s"
  shows "tracker_inv w d (snd (get_balance w address s))"
proof (cases "to_checksum_address w address")
  case None
  with assms show ?thesis by (simp add: get_balance_invalid)
next
  case (Some a)
  show ?thesis
  proof (cases "cache_fresh w s \<and> balance_cache s a \<noteq> None")
    case True
    then obtain v where "balance_cache s a = Some v" by auto
    with True Some assms show ?thesis by (simp add: get_balance_hit inv_emit)
  next
    case False
    show ?thesis
    proof (cases "rpc_balanceOf w (Suc (tick s)) a")
      case None
      from get_balance_miss_fail [OF Some False None] assms show ?thesis
        by (simp add: tracker_inv_def)
    next
      case (Some raw)
      from get_balance_miss_ok [OF \<open>to_checksum_address w address = Some a\<close> False Some] assms
      show ?thesis
        using rounded_quotient_nonneg [of w raw "decimals s"] by (simp add: tracker_inv_def)
    qed
  qed
qed


lemma inv_get_token_transactions:
  "tracker_inv w d s \<Longrightarrow> tracker_inv w d (snd (get_token_transactions w s))"
  by (auto simp add: get_token_transactions_def is_cache_valid_eq io_defs
      update_cache_timestamp_def Let_def tracker_inv_def
      split: tokentx_reply.splits option.splits)

lemma inv_get_token_info:
  "tracker_inv w d s \<Longrightarrow> tracker_inv w d (snd (get_token_info w s))"
  by (auto simp add: get_token_info_def is_cache_valid_eq io_defs format_balance_word
      update_cache_timestamp_def Let_def tracker_inv_def split: option.splits)

lemma inv_holders_loop:
  "tracker_inv w d s \<Longrightarrow> tracker_inv w d (snd (holders_loop w addresses holders s))"
proof (induction addresses arbitrary: holders s)
  case Nil
  then show ?case by simp
next
  case (Cons address rest)
  show ?case
  proof (cases "address \<noteq> ZERO_ADDRESS")
    case False
    then have "holders_loop w (address # rest) holders s = holders_loop w rest holders s"
      by simp
    then show ?thesis using Cons.IH [OF Cons.prems] by simp
  next
    case True
    obtain r s1 where g: "get_balance w address s = (r, s1)" by (cases "get_balance w address s")
    have i1: "tracker_inv w d s1"
      using inv_get_balance [OF Cons.prems, of address] g by simp
    show ?thesis
    proof (cases r)
      case (Inl e)
      with True g have "holders_loop w (address # rest) holders s
            = holders_loop w rest holders (emit (Print ''Error getting balance'') s1)"
        by simp
      moreover have "tracker_inv w d (emit (Print ''Error getting balance'') s1)"
        using i1 by (simp add: inv_emit)
      ultimately show ?thesis using Cons.IH by simp
    next
      case (Inr balance)
      show ?thesis
      proof (cases "balance > 0")
        case False
        with True g Inr have "holders_loop w (address # rest) holders s
            = holders_loop w rest holders s1"
          by simp
        then show ?thesis using Cons.IH [OF i1] by simp
      next
        case pos: True
        with True g Inr have "holders_loop w (address # rest) holders s
            = holders_loop w rest (holders @ [(address, balance)]) s1"
          by simp
        then show ?thesis using Cons.IH [OF i1] by simp
      qed
    qed
  qed
qed

lemma inv_visit:
  assumes "tracker_inv w d (snd st)"
  shows "tracker_inv w d (snd (visit w t address st))"
proof -
  obtain holders_data s where st: "st = (holders_data, s)" by (cases st)
  obtain r s1 where g: "get_balance w address s = (r, s1)" by (cases "get_balance w address s")
  have i: "tracker_inv w d s" using assms st by simp
  have i1: "tracker_inv w d s1"
    using inv_get_balance [OF i, of address] g by simp
  have i2: "tracker_inv w d (emit (Print ''Error getting balance'') s1)"
    using i1 by (simp add: inv_emit)
  show ?thesis
    using i i1 i2 by (simp add: visit_def st g split: sum.splits option.splits)
qed

lemma inv_activity_loop:
  "tracker_inv w d (snd st) \<Longrightarrow> tracker_inv w d (snd (activity_loop w txs st))"
proof (induction txs arbitrary: st)
  case Nil
  then show ?case by simp
next
  case (Cons t rest)
  have "tracker_inv w d (snd (visit w t (tx_from t) (visit w t (tx_to t) st)))"
    by (intro inv_visit Cons.prems)
  then show ?case using Cons.IH by simp
qed

lemma inv_get_top_holders:
  assumes "tracker_inv w d s"
  shows "tracker_inv w d (snd (get_top_holders w n s))"
proof -
  obtain txs s1 where t: "get_token_transactions w s = (txs, s1)"
    by (cases "get_token_transactions w s")
  have i1: "tracker_inv w d s1" using inv_get_token_transactions [OF assms] t by simp
  show ?thesis
    using i1 inv_holders_loop [OF i1, of "set_iter w (collect_addresses txs)" "[]"]
    by (auto simp add: get_top_holders_def t split: prod.splits)
qed

lemma inv_get_top_with_transactions:
  assumes "tracker_inv w d s"
  shows "tracker_inv w d (snd (get_top_with_transactions w n s))"
proof -
  obtain txs s1 where t: "get_token_transactions w s = (txs, s1)"
    by (cases "get_token_transactions w s")
  have i1: "tracker_inv w d s1" using inv_get_token_transactions [OF assms] t by simp
  have "tracker_inv w d (snd (activity_loop w txs ([], s1)))"
    by (rule inv_activity_loop) (simp add: i1)
  then show ?thesis
    using i1 by (auto simp add: get_top_with_transactions_def t split: prod.splits)
qed

lemma inv_get_token_stats:
  assumes "tracker_inv w d s"
  shows "tracker_inv w d (snd (get_token_stats w s))"
proof -
  obtain info s1 where a: "get_token_info w s = (info, s1)" by (cases "get_token_info w s")
  obtain holders s2 where b: "get_top_holders w 100 s1 = (holders, s2)"
    by (cases "get_top_holders w 100 s1")
  have i1: "tracker_inv w d s1" using inv_get_token_info [OF assms] a by simp
  have i2: "tracker_inv w d s2" using inv_get_top_holders [OF i1, of 100] b by simp
  show ?thesis
    using i2 by (simp add: get_token_stats_def a b truediv_def Let_def inv_emit)
qed

lemma inv_get_address_history:
  assumes "tracker_inv w d s"
  shows "tracker_inv w d (snd (get_address_history w address limit s))"
proof -
  obtain txs s1 where t: "get_token_transactions w s = (txs, s1)"
    by (cases "get_token_transactions w s")
  have i1: "tracker_inv w d s1" using inv_get_token_transactions [OF assms] t by simp
  then show ?thesis
    by (simp add: get_address_history_def t inv_emit split: option.splits)
qed

lemma inv_init: "init w = Inr s \<Longrightarrow> \<exists>d. rpc_decimals w 0 = Some d \<and> tracker_inv w (unat d) s"
  by (auto simp add: init_def tracker_inv_def split: option.splits)

lemma reachable_inv:
  "reachable w s \<Longrightarrow> \<exists>d. rpc_decimals w 0 = Some d \<and> tracker_inv w (unat d) s"
proof (induction rule: reachable.induct)
  case (constructed s)
  then show ?case by (rule inv_init)
next
  case (after_get_balance s address)
  then show ?case using inv_get_balance by blast
next
  case (after_get_top_holders s n)
  then show ?case using inv_get_top_holders by blast
next
  case (after_get_top_with_transactions s n)
  then show ?case using inv_get_top_with_transactions by blast
next
  case (after_get_token_info s)
  then show ?case using inv_get_token_info by blast
next
  case (after_get_token_stats s)
  then show ?case using inv_get_token_stats by blast
next
  case (after_get_address_history s address limit)
  then show ?case using inv_get_address_history by blast
qed


lemma scale_down_nonneg: "0 \<le> x \<Longrightarrow> 0 \<le> fst (scale_down x e)"
proof (induction x e rule: scale_down.induct)
  case (1 x e)
  show ?case
  proof (cases "2 \<le> x")
    case True
    then have "scale_down x e = scale_down (x / 2) (e + 1)" by (rule scale_down_step)
    moreover have "0 \<le> fst (scale_down (x / 2) (e + 1))" using "1.IH" True "1.prems" by simp
    ultimately show ?thesis by simp
  next
    case False
    then have "scale_down x e = (x, e)" by (rule scale_down_stop)
    then show ?thesis using "1.prems" by simp
  qed
qed

lemma scale_up_nonneg: "0 \<le> x \<Longrightarrow> 0 \<le> fst (scale_up x e)"
proof (induction x e rule: scale_up.induct)
  case (1 x e)
  show ?case
  proof (cases "x < 1 \<and> - 1022 < e")
    case True
    then have "scale_up x e = scale_up (2 * x) (e - 1)" by (simp add: scale_up_step)
    moreover have "0 \<le> fst (scale_up (2 * x) (e - 1))" using "1.IH" True "1.prems" by simp
    ultimately show ?thesis by simp
  next
    case False
    then have "scale_up x e = (x, e)" by (rule scale_up_stop)
    then show ?thesis using "1.prems" by simp
  qed
qed

lemma round_half_even_nonneg: "0 \<le> m \<Longrightarrow> 0 \<le> round_half_even m"
  by (auto simp add: round_half_even_def Let_def)

lemma pow2_pos: "0 < pow2 e"
  by (simp add: pow2_def)

lemma ieee_round_pos_nonneg: "0 \<le> x \<Longrightarrow> 0 \<le> ieee_round_pos x"
proof -
  assume x: "0 \<le> x"
  obtain y d where a: "scale_down x 0 = (y, d)" by (cases "scale_down x 0")
  obtain m e where b: "scale_up y d = (m, e)" by (cases "scale_up y d")
  have "0 \<le> y" using scale_down_nonneg [OF x, of 0] a by simp
  then have "0 \<le> m" using scale_up_nonneg [of y d] b by simp
  then have "0 \<le> round_half_even (m * 2 ^ 52)" by (intro round_half_even_nonneg) simp
  then have "0 \<le> of_int (round_half_even (m * 2 ^ 52)) * pow2 (e - 52)"
    using pow2_pos [of "e - 52"] by (intro mult_nonneg_nonneg) simp_all
  then show ?thesis by (simp add: ieee_round_pos_def a b)
qed

lemma ieee_round_nonneg: "0 \<le> x \<Longrightarrow> 0 \<le> ieee_round x"
  by (simp add: ieee_round_def ieee_round_pos_nonneg)

text \<open>
  C7. In every state a tracker can reach, \<^verbatim>\<open>get_balance\<close> returns a value for every
  string that normalises to an address, and raises for the others; the value is not
  negative when the rounding of the division maps no non-negative quotient to a
  negative double. When the provider is asked and answers \<open>raw\<close>, the value is the
  double to which \<open>raw / 10 ^ decimals\<close> is rounded, where \<open>decimals\<close> is the precision
  read by the one \<^verbatim>\<open>decimals()\<close> call of the constructor; \<^verbatim>\<open>get_balance\<close> leaves it as
  it is.
\<close>

theorem balance_nonnegative_and_scaled:
  "reachable w s \<Longrightarrow>
     (to_checksum_address w address \<noteq> None \<longrightarrow>
        (\<exists>v. fst (get_balance w address s) = Inr v \<and> (rounds_nonneg w \<longrightarrow> 0 \<le> v)))
   \<and> (to_checksum_address w address = None \<longrightarrow>
        fst (get_balance w address s) = Inl (InvalidAddress address))
   \<and> (to_checksum_address w address = Some a
        \<and> \<not> (cache_fresh w s \<and> balance_cache s a \<noteq> None)
        \<and> rpc_balanceOf w (Suc (tick s)) a = Some raw \<longrightarrow>
        fst (get_balance w address s)
          = Inr (round_double w (real (unat raw) / 10 ^ decimals s)))
   \<and> (\<exists>d. rpc_decimals w 0 = Some d \<and> decimals s = unat d)
   \<and> count_list (events s) CallDecimals = 1
   \<and> decimals (snd (get_balance w address s)) = decimals s"
proof -
  assume "reachable w s"
  then obtain d where d: "rpc_decimals w 0 = Some d" and i: "tracker_inv w (unat d) s"
    using reachable_inv by blast
  have i': "tracker_inv w (unat d) (snd (get_balance w address s))"
    using i by (rule inv_get_balance)
  have nonneg: "to_checksum_address w address \<noteq> None \<longrightarrow>
        (\<exists>v. fst (get_balance w address s) = Inr v \<and> (rounds_nonneg w \<longrightarrow> 0 \<le> v))"
  proof
    assume "to_checksum_address w address \<noteq> None"
    then obtain b where b: "to_checksum_address w address = Some b" by auto
    show "\<exists>v. fst (get_balance w address s) = Inr v \<and> (rounds_nonneg w \<longrightarrow> 0 \<le> v)"
    proof (cases "cache_fresh w s \<and> balance_cache s b \<noteq> None")
      case True
      then obtain v where v: "balance_cache s b = Some v" by auto
      then have "rounds_nonneg w \<longrightarrow> 0 \<le> v" using i by (simp add: tracker_inv_def)
      then show ?thesis using True b v by (simp add: get_balance_hit)
    next
      case False
      show ?thesis
      proof (cases "rpc_balanceOf w (Suc (tick s)) b")
        case None
        from get_balance_miss_fail [OF b False None] show ?thesis by simp
      next
        case (Some r)
        from get_balance_miss_ok [OF b False Some] show ?thesis
          using rounded_quotient_nonneg [of w r "decimals s"] by simp
      qed
    qed
  qed
  have scaled: "to_checksum_address w address = Some a
        \<and> \<not> (cache_fresh w s \<and> balance_cache s a \<noteq> None)
        \<and> rpc_balanceOf w (Suc (tick s)) a = Some raw \<longrightarrow>
        fst (get_balance w address s)
          = Inr (round_double w (real (unat raw) / 10 ^ decimals s))"
    using get_balance_miss_ok [of w address a s raw] by simp
  show ?thesis
    using nonneg scaled d i i' by (simp add: get_balance_invalid tracker_inv_def)
qed

text \<open>
  The runs behind the witness: the scenario, and the repository's own test value, a raw
  balance of \<open>10 ^ 16\<close> with 18 decimals, whose nearest double is not \<open>1 / 100\<close>.
\<close>

lemma demo_rounds_nonneg: "rounds_nonneg demo_world"
  by (simp add: rounds_nonneg_def demo_world_def ieee_round_nonneg)

lemma test_rounds_nonneg: "rounds_nonneg test_world"
  by (simp add: rounds_nonneg_def test_world_def demo_world_def ieee_round_nonneg)

lemma balance_runs:
  "to_checksum_address demo_world ''0xBBB'' = Some ''0xBBB''
   \<and> \<not> (cache_fresh demo_world demo_tracker \<and> balance_cache demo_tracker ''0xBBB'' \<noteq> None)
   \<and> rpc_balanceOf demo_world (Suc (tick demo_tracker)) ''0xBBB'' = Some 5000000
   \<and> rpc_decimals demo_world 0 = Some 6
   \<and> decimals demo_tracker = 6
   \<and> round_double demo_world (real (unat (5000000 :: 256 word)) / 10 ^ 6) = 5
   \<and> fst (get_balance demo_world ''0xBBB'' demo_tracker) = Inr 5
   \<and> fst (get_balance demo_world [] demo_tracker) = Inl (InvalidAddress [])
   \<and> decimals demo_after_balance = 6
   \<and> fst (get_balance demo_world ''0xBBB'' demo_after_balance) = Inr 5
   \<and> fst (get_balance demo_world ''0xAAA'' demo_after_balance) = Inr 0
   \<and> rpc_decimals test_world 0 = Some 18
   \<and> decimals test_tracker = 18
   \<and> rpc_balanceOf test_world (Suc (tick test_tracker)) ''0xBBB'' = Some 10000000000000000
   \<and> round_double test_world (real (unat (10000000000000000 :: 256 word)) / 10 ^ 18)
       = 5764607523034235 / 576460752303423488
   \<and> fst (get_balance test_world ''0xBBB'' test_tracker)
       = Inr (5764607523034235 / 576460752303423488)"
  by (simp add: run_defs demo_defs demo_after_balance_def test_world_def test_tracker_def)

theorem balance_nonnegative_and_scaled_witness:
  "reachable demo_world demo_tracker
   \<and> reachable demo_world demo_after_balance
   \<and> reachable test_world test_tracker
   \<and> rounds_nonneg demo_world
   \<and> rounds_nonneg test_world
   \<and> to_checksum_address demo_world ''0xBBB'' = Some ''0xBBB''
   \<and> \<not> (cache_fresh demo_world demo_tracker \<and> balance_cache demo_tracker ''0xBBB'' \<noteq> None)
   \<and> rpc_balanceOf demo_world (Suc (tick demo_tracker)) ''0xBBB'' = Some 5000000
   \<and> rpc_decimals demo_world 0 = Some 6
   \<and> decimals demo_tracker = 6
   \<and> round_double demo_world (real (unat (5000000 :: 256 word)) / 10 ^ 6) = 5
   \<and> fst (get_balance demo_world ''0xBBB'' demo_tracker) = Inr 5
   \<and> fst (get_balance demo_world [] demo_tracker) = Inl (InvalidAddress [])
   \<and> decimals demo_after_balance = 6
   \<and> fst (get_balance demo_world ''0xBBB'' demo_after_balance) = Inr 5
   \<and> fst (get_balance demo_world ''0xAAA'' demo_after_balance) = Inr 0
   \<and> rpc_decimals test_world 0 = Some 18
   \<and> decimals test_tracker = 18
   \<and> rpc_balanceOf test_world (Suc (tick test_tracker)) ''0xBBB'' = Some 10000000000000000
   \<and> round_double test_world (real (unat (10000000000000000 :: 256 word)) / 10 ^ 18)
       = 5764607523034235 / 576460752303423488
   \<and> fst (get_balance test_world ''0xBBB'' test_tracker)
       = Inr (5764607523034235 / 576460752303423488)"
proof -
  have r0: "reachable demo_world demo_tracker"
    by (rule reachable.constructed) (simp add: init_def demo_world_def demo_tracker_def)
  have r1: "reachable demo_world demo_after_balance"
    unfolding demo_after_balance_def by (rule reachable.after_get_balance [OF r0])
  have r2: "reachable test_world test_tracker"
    by (rule reachable.constructed)
      (simp add: init_def test_world_def test_tracker_def demo_world_def demo_tracker_def)
  note t0 = balance_nonnegative_and_scaled [OF r0, of "''0xBBB''" "''0xBBB''" 5000000]
    and t1 = balance_nonnegative_and_scaled [OF r0, of "[]"]
    and t2 = balance_nonnegative_and_scaled [OF r1, of "''0xBBB''"]
    and t3 = balance_nonnegative_and_scaled [OF r1, of "''0xAAA''"]
    and t4 = balance_nonnegative_and_scaled
      [OF r2, of "''0xBBB''" "''0xBBB''" 10000000000000000]
  from t0 t1 t2 t3 t4 show ?thesis
    by - (rule conjI [OF r0 conjI [OF r1 conjI [OF r2 conjI [OF demo_rounds_nonneg
          conjI [OF test_rounds_nonneg balance_runs]]]]])
qed

end
